theory Spec2Isabelle
  imports Complex_Main
begin

section \<open>The many-neurons notebook as a program over an external library\<close>

text \<open>
  The repository's only source file is the Jupyter notebook
  \<^verbatim>\<open>docs/examples/basic/many-neurons.ipynb\<close>. Its code cells are straight-line Python
  that calls into nengo, numpy and matplotlib. The libraries are not part of the source,
  so they appear here as a parameter: every external call the notebook makes is a
  constructor of \<open>call\<close>, and a library is any function that answers such a call, in some
  world of its own, with a value or with an exception.

  What the notebook itself contributes is modelled in full: the order of the statements,
  the arguments of every call, the names it binds in the kernel's namespace, and the
  \<^verbatim>\<open>with\<close> statements, which enter a context manager, run their body, and hand an
  exception raised in the body to the manager's \<^verbatim>\<open>__exit__\<close> before it goes on.
\<close>

subsection \<open>Values, exceptions and external calls\<close>

type_synonym name = string

text \<open>
  An exception is either one raised inside the library (of the library's own type \<open>'e\<close>)
  or Python's NameError for a name that was never bound.
\<close>

datatype 'e exn = Raised 'e | Name_error name

text \<open>
  The external calls of the notebook, one constructor per call form that occurs in it,
  with the arguments the source passes. \<open>'v\<close> is the type of Python objects handed back by
  the library (networks, ensembles, probes, arrays, \<^verbatim>\<open>None\<close>). Number literals of
  the source are kept as numbers: \<^verbatim>\<open>100\<close>, \<^verbatim>\<open>1\<close>, \<^verbatim>\<open>250\<close> as integers, \<^verbatim>\<open>0.01\<close>
  as the real number it denotes. The function handed to \<^verbatim>\<open>nengo.Node\<close> is kept as a
  function on the reals.
\<close>

datatype ('e, 'v) call =
    Magic string                     \<comment> \<open>\<^verbatim>\<open>%matplotlib inline\<close>\<close>
  | Import string string             \<comment> \<open>\<^verbatim>\<open>import m as n\<close>, \<^verbatim>\<open>from m import n\<close>\<close>
  | Network_new string               \<comment> \<open>\<^verbatim>\<open>nengo.Network(label=...)\<close>\<close>
  | Enter 'v                         \<comment> \<open>\<^verbatim>\<open>mgr.__enter__()\<close>\<close>
  | Exit 'v "'e exn option"          \<comment> \<open>\<^verbatim>\<open>mgr.__exit__(...)\<close>, with the exception in flight, if any\<close>
  | Truth 'v                         \<comment> \<open>the truth test \<^verbatim>\<open>bool(res)\<close> on what \<^verbatim>\<open>__exit__\<close> returned\<close>
  | Ensemble_new int int             \<comment> \<open>\<^verbatim>\<open>nengo.Ensemble(n_neurons, dimensions=d)\<close>\<close>
  | Node_new "real \<Rightarrow> real"          \<comment> \<open>\<^verbatim>\<open>nengo.Node(f)\<close>\<close>
  | Connection_new 'v 'v real        \<comment> \<open>\<^verbatim>\<open>nengo.Connection(pre, post, synapse=s)\<close>\<close>
  | Probe_new 'v "real option"       \<comment> \<open>\<^verbatim>\<open>nengo.Probe(target)\<close>, \<^verbatim>\<open>nengo.Probe(target, synapse=s)\<close>\<close>
  | Get_neurons 'v                   \<comment> \<open>\<^verbatim>\<open>ens.neurons\<close>\<close>
  | Simulator_new 'v                 \<comment> \<open>\<^verbatim>\<open>nengo.Simulator(model)\<close>\<close>
  | Sim_run 'v int                   \<comment> \<open>\<^verbatim>\<open>sim.run(t)\<close>\<close>
  | Figure                           \<comment> \<open>\<^verbatim>\<open>plt.figure()\<close>\<close>
  | Trange 'v                        \<comment> \<open>\<^verbatim>\<open>sim.trange()\<close>\<close>
  | Get_data 'v                      \<comment> \<open>\<^verbatim>\<open>sim.data\<close>\<close>
  | Getitem 'v 'v                    \<comment> \<open>\<^verbatim>\<open>d[probe]\<close>\<close>
  | Getitem_cols 'v 'v               \<comment> \<open>\<^verbatim>\<open>a[:, indices]\<close>\<close>
  | Plot 'v 'v "string option" string  \<comment> \<open>\<^verbatim>\<open>plt.plot(x, y, fmt, label=l)\<close>\<close>
  | Xlim int int                     \<comment> \<open>\<^verbatim>\<open>plt.xlim(lo, hi)\<close>\<close>
  | Legend                           \<comment> \<open>\<^verbatim>\<open>plt.legend()\<close>\<close>
  | Rasterplot 'v 'v                 \<comment> \<open>\<^verbatim>\<open>rasterplot(time, spikes)\<close>\<close>
  | Sorted_neurons 'v 'v int         \<comment> \<open>\<^verbatim>\<open>sorted_neurons(ens, sim, iterations=n)\<close>\<close>

text \<open>
  A library answers a call in its current world with an exception or a value, and moves to
  a new world. \<open>is_true\<close> tells whether an object is Python's \<^verbatim>\<open>True\<close>; it is consulted on
  the answer to the truth test of what \<^verbatim>\<open>__exit__\<close> returned.
\<close>

record ('e, 'v, 'w) lib =
  ext :: "('e, 'v) call \<Rightarrow> 'w \<Rightarrow> ('e + 'v) \<times> 'w"
  is_true :: "'v \<Rightarrow> bool"

subsection \<open>The kernel state and the statements of Python the notebook uses\<close>

text \<open>
  The kernel holds the namespace of the notebook (\<open>env\<close>) and the library's world. For
  the statements about call order it also keeps a log: every external call made, with the
  number of the code cell that made it and what the library answered.
\<close>

type_synonym ('e, 'v) entry = "nat \<times> ('e, 'v) call \<times> ('e + 'v)"

record ('e, 'v, 'w) kernel =
  cur :: nat
  log :: "('e, 'v) entry list"
  env :: "name \<rightharpoonup> 'v"
  world :: 'w

type_synonym ('e, 'v, 'w, 'a) prog =
  "('e, 'v, 'w) kernel \<Rightarrow> ('e exn + 'a) \<times> ('e, 'v, 'w) kernel"

definition fresh :: "'w \<Rightarrow> ('e, 'v, 'w) kernel" where
  "fresh w = \<lparr>cur = 0, log = [], env = Map.empty, world = w\<rparr>"

definition ret :: "'a \<Rightarrow> ('e, 'v, 'w, 'a) prog" where
  "ret x s = (Inr x, s)"

definition raise :: "'e exn \<Rightarrow> ('e, 'v, 'w, 'a) prog" where
  "raise x s = (Inl x, s)"

text \<open>Sequencing: an exception of the first part skips the second.\<close>

definition bnd :: "('e, 'v, 'w, 'a) prog \<Rightarrow> ('a \<Rightarrow> ('e, 'v, 'w, 'b) prog) \<Rightarrow> ('e, 'v, 'w, 'b) prog" where
  "bnd m f s = (case m s of (Inl x, s') \<Rightarrow> (Inl x, s') | (Inr a, s') \<Rightarrow> f a s')"

text \<open>An external call: the library answers, the answer is logged, an exception is raised.\<close>

definition call :: "('e, 'v, 'w) lib \<Rightarrow> ('e, 'v) call \<Rightarrow> ('e, 'v, 'w, 'v) prog" where
  "call L c s =
     (case ext L c (world s) of (r, w') \<Rightarrow>
        ((case r of Inl e \<Rightarrow> Inl (Raised e) | Inr v \<Rightarrow> Inr v),
         s\<lparr>log := log s @ [(cur s, c, r)], world := w'\<rparr>))"

text \<open>Reading a name: NameError when it is not bound.\<close>

definition var :: "name \<Rightarrow> ('e, 'v, 'w, 'v) prog" where
  "var x s = (case env s x of None \<Rightarrow> (Inl (Name_error x), s) | Some v \<Rightarrow> (Inr v, s))"

definition store :: "name \<Rightarrow> 'v \<Rightarrow> ('e, 'v, 'w, unit) prog" where
  "store x v s = (Inr (), s\<lparr>env := (env s)(x \<mapsto> v)\<rparr>)"

text \<open>\<^verbatim>\<open>x = e\<close>: the name is bound only if \<^verbatim>\<open>e\<close> returns.\<close>

definition assign :: "name \<Rightarrow> ('e, 'v, 'w, 'v) prog \<Rightarrow> ('e, 'v, 'w, unit) prog" where
  "assign x m = bnd m (store x)"

text \<open>An expression statement: the value is dropped.\<close>

definition stmt :: "('e, 'v, 'w, 'v) prog \<Rightarrow> ('e, 'v, 'w, unit) prog" where
  "stmt m = bnd m (\<lambda>_. ret ())"

fun block :: "('e, 'v, 'w, unit) prog list \<Rightarrow> ('e, 'v, 'w, unit) prog" where
  "block [] = ret ()"
| "block (c # cs) = bnd c (\<lambda>_. block cs)"

text \<open>
  \<^verbatim>\<open>with cm as target: body\<close>, as the language defines it: the manager expression is
  evaluated, \<^verbatim>\<open>__enter__\<close> is called (an exception of either leaves at once), its result
  is bound to the target, the body runs. If the body returns, \<^verbatim>\<open>__exit__(None, None, None)\<close>
  is called and its result dropped. If the body raises \<open>x\<close>, \<^verbatim>\<open>__exit__\<close> is called
  with \<open>x\<close> and its result is tested for truth. When that call or the truth test raises,
  the new exception replaces \<open>x\<close>; when the result is true, \<open>x\<close> is dropped and execution
  goes on after the statement; otherwise \<open>x\<close> is raised again.
\<close>

definition attempt ::
  "('e, 'v, 'w, 'a) prog \<Rightarrow> ('e exn + 'a \<Rightarrow> ('e, 'v, 'w, 'b) prog) \<Rightarrow> ('e, 'v, 'w, 'b) prog" where
  \<comment> \<open>run \<open>m\<close> and go on with its outcome, exception or value\<close>
  "attempt m h s = (case m s of (r, s') \<Rightarrow> h r s')"

definition with_body :: "name option \<Rightarrow> 'v \<Rightarrow> ('e, 'v, 'w, unit) prog \<Rightarrow> ('e, 'v, 'w, unit) prog" where
  "with_body target v body =
     (case target of None \<Rightarrow> body | Some x \<Rightarrow> bnd (store x v) (\<lambda>_. body))"

definition with_stmt ::
  "('e, 'v, 'w) lib \<Rightarrow> ('e, 'v, 'w, 'v) prog \<Rightarrow> name option \<Rightarrow> ('e, 'v, 'w, unit) prog list
     \<Rightarrow> ('e, 'v, 'w, unit) prog" where
  "with_stmt L cm target body =
     bnd cm (\<lambda>mgr.
     bnd (call L (Enter mgr)) (\<lambda>v.
     attempt (with_body target v (block body)) (\<lambda>r.
       case r of
         Inr u \<Rightarrow> stmt (call L (Exit mgr None))
       | Inl x \<Rightarrow>
           bnd (call L (Exit mgr (Some x))) (\<lambda>res.
           bnd (call L (Truth res)) (\<lambda>b.
           if is_true L b then ret () else raise x)))))"

subsection \<open>Cells\<close>

text \<open>
  A notebook is a list of cells, markdown or code. Running it runs the code cells in
  the order of the file; the counter \<open>cur\<close> numbers them from 0, so that the import cell
  is cell 0 and the cell under the heading \<^verbatim>\<open>Step n\<close> is cell \<open>n\<close>. An exception that
  leaves a cell ends the run.
\<close>

datatype ('e, 'v, 'w) cell =
    Markdown "string list"
  | Code "('e, 'v, 'w, unit) prog list"

definition enter_cell :: "nat \<Rightarrow> ('e, 'v, 'w, unit) prog" where
  "enter_cell n s = (Inr (), s\<lparr>cur := n\<rparr>)"

fun run_cells :: "nat \<Rightarrow> ('e, 'v, 'w) cell list \<Rightarrow> ('e, 'v, 'w, unit) prog" where
  "run_cells n [] = ret ()"
| "run_cells n (Markdown txt # cs) = run_cells n cs"
| "run_cells n (Code body # cs) =
     bnd (enter_cell n) (\<lambda>_. bnd (block body) (\<lambda>_. run_cells (Suc n) cs))"

subsection \<open>The notebook\<close>

text \<open>The two expressions that recur in the plotting cells.\<close>

definition sim_trange :: "('e, 'v, 'w) lib \<Rightarrow> ('e, 'v, 'w, 'v) prog" where
  \<comment> \<open>\<^verbatim>\<open>sim.trange()\<close>\<close>
  "sim_trange L = bnd (var ''sim'') (\<lambda>s. call L (Trange s))"

definition sim_data :: "('e, 'v, 'w) lib \<Rightarrow> name \<Rightarrow> ('e, 'v, 'w, 'v) prog" where
  \<comment> \<open>\<^verbatim>\<open>sim.data[p]\<close>: the attribute, then the name \<open>p\<close>, then the subscript\<close>
  "sim_data L p =
     bnd (bnd (var ''sim'') (\<lambda>s. call L (Get_data s))) (\<lambda>d.
     bnd (var p) (\<lambda>q. call L (Getitem d q)))"

definition input_function :: "real \<Rightarrow> real" where
  \<comment> \<open>\<^verbatim>\<open>lambda t: np.sin(8 * t)\<close>\<close>
  "input_function t = sin (8 * t)"

definition cell_imports :: "('e, 'v, 'w) lib \<Rightarrow> ('e, 'v, 'w, unit) prog list" where
  "cell_imports L =
    [stmt (call L (Magic ''matplotlib inline'')),
     stmt (call L (Import ''matplotlib.pyplot'' ''plt'')),
     stmt (call L (Import ''numpy'' ''np'')),
     stmt (call L (Import ''nengo'' ''nengo'')),
     stmt (call L (Import ''nengo.utils.ensemble'' ''sorted_neurons'')),
     stmt (call L (Import ''nengo.utils.matplotlib'' ''rasterplot''))]"

definition cell_step1 :: "('e, 'v, 'w) lib \<Rightarrow> ('e, 'v, 'w, unit) prog list" where
  "cell_step1 L =
    [assign ''model'' (call L (Network_new ''Many Neurons'')),
     with_stmt L (var ''model'') None
       [assign ''A'' (call L (Ensemble_new 100 1))]]"

definition cell_step2 :: "('e, 'v, 'w) lib \<Rightarrow> ('e, 'v, 'w, unit) prog list" where
  "cell_step2 L =
    [with_stmt L (var ''model'') None
       [assign ''sin'' (call L (Node_new input_function))]]"

definition cell_step3 :: "('e, 'v, 'w) lib \<Rightarrow> ('e, 'v, 'w, unit) prog list" where
  "cell_step3 L =
    [with_stmt L (var ''model'') None
       [stmt (bnd (var ''sin'') (\<lambda>pre. bnd (var ''A'') (\<lambda>post.
          call L (Connection_new pre post (1 / 100)))))]]"

definition cell_step4 :: "('e, 'v, 'w) lib \<Rightarrow> ('e, 'v, 'w, unit) prog list" where
  "cell_step4 L =
    [with_stmt L (var ''model'') None
       [assign ''sin_probe'' (bnd (var ''sin'') (\<lambda>x. call L (Probe_new x None))),
        assign ''A_probe'' (bnd (var ''A'') (\<lambda>x. call L (Probe_new x (Some (1 / 100))))),
        assign ''A_spikes''
          (bnd (bnd (var ''A'') (\<lambda>x. call L (Get_neurons x))) (\<lambda>n. call L (Probe_new n None)))]]"

definition cell_step5 :: "('e, 'v, 'w) lib \<Rightarrow> ('e, 'v, 'w, unit) prog list" where
  "cell_step5 L =
    [with_stmt L (bnd (var ''model'') (\<lambda>m. call L (Simulator_new m))) (Some ''sim'')
       [stmt (bnd (var ''sim'') (\<lambda>s. call L (Sim_run s 1)))]]"

definition cell_step6 :: "('e, 'v, 'w) lib \<Rightarrow> ('e, 'v, 'w, unit) prog list" where
  "cell_step6 L =
    [stmt (call L Figure),
     stmt (bnd (sim_trange L) (\<lambda>t. bnd (sim_data L ''A_probe'') (\<lambda>y.
        call L (Plot t y None ''A output'')))),
     stmt (bnd (sim_trange L) (\<lambda>t. bnd (sim_data L ''sin_probe'') (\<lambda>y.
        call L (Plot t y (Some ''r'') ''Input'')))),
     stmt (call L (Xlim 0 1)),
     stmt (call L Legend),
     stmt (call L Figure),
     stmt (bnd (sim_trange L) (\<lambda>t. bnd (sim_data L ''A_spikes'') (\<lambda>y.
        call L (Rasterplot t y)))),
     stmt (call L (Xlim 0 1))]"

definition cell_sorted :: "('e, 'v, 'w) lib \<Rightarrow> ('e, 'v, 'w, unit) prog list" where
  "cell_sorted L =
    [assign ''indices'' (bnd (var ''A'') (\<lambda>a. bnd (var ''sim'') (\<lambda>s.
        call L (Sorted_neurons a s 250)))),
     stmt (call L Figure),
     stmt (bnd (sim_trange L) (\<lambda>t.
           bnd (bnd (sim_data L ''A_spikes'') (\<lambda>a. bnd (var ''indices'') (\<lambda>i.
                  call L (Getitem_cols a i)))) (\<lambda>y.
           call L (Rasterplot t y)))),
     stmt (call L (Xlim 0 1))]"

definition text_after_plots :: "string list" where
  "text_after_plots =
    [''The top graph shows the decoded response of the neural spiking.'',
     ''The bottom plot shows the spike raster coming out of every 2nd neuron.'']"

definition cells :: "('e, 'v, 'w) lib \<Rightarrow> ('e, 'v, 'w) cell list" where
  "cells L =
    [Markdown [''# Many neurons'', '''',
       ''This demo shows how to construct and manipulate a population of neurons.'', '''',
       ''These are 100 leaky integrate-and-fire (LIF) neurons.'',
       ''The neuron tuning properties have been randomly selected.'', '''',
       ''The input is a sine wave to show the effects'',
       ''of increasing or decreasing input.'',
       ''As a population, these neurons do a good job'',
       ''of representing a single scalar value.'',
       ''This can be seen by the fact that'',
       ''the input graph and neurons graphs match well.''],
     Code (cell_imports L),
     Markdown [''## Step 1: Create the neural population'', '''',
       ''Our model consists of a single population of neurons.''],
     Code (cell_step1 L),
     Markdown [''## Step 2: Create input for the model'', '''',
       ''We will use a sine wave as a continuously changing input.''],
     Code (cell_step2 L),
     Markdown [''## Step 3: Connect the network elements''],
     Code (cell_step3 L),
     Markdown [''## Step 4: Probe outputs'', '''',
       ''Anything that is probed will collect the data it produces over time,'',
       ''allowing us to analyze and visualize it later.''],
     Code (cell_step4 L),
     Markdown [''## Step 5: Run the model''],
     Code (cell_step5 L),
     Markdown [''## Step 6: Plot the results''],
     Code (cell_step6 L),
     Markdown text_after_plots,
     Code (cell_sorted L)]"

definition notebook :: "('e, 'v, 'w) lib \<Rightarrow> 'w \<Rightarrow> ('e exn + unit) \<times> ('e, 'v, 'w) kernel" where
  "notebook L w = run_cells 0 (cells L) (fresh w)"


definition outcome :: "('e, 'v, 'w) lib \<Rightarrow> 'w \<Rightarrow> 'e exn + unit" where
  "outcome L w = fst (notebook L w)"

definition trace :: "('e, 'v, 'w) lib \<Rightarrow> 'w \<Rightarrow> ('e, 'v) entry list" where
  "trace L w = log (snd (notebook L w))"

subsection \<open>Notions for stating properties of a run\<close>

text \<open>A run is clean when no external call in its log raised.\<close>

definition ok_entry :: "('e, 'v) entry \<Rightarrow> bool" where
  "ok_entry x = (case snd (snd x) of Inl _ \<Rightarrow> False | Inr _ \<Rightarrow> True)"

definition clean :: "('e, 'v) entry list \<Rightarrow> bool" where
  "clean es = list_all ok_entry es"

text \<open>The exceptions raised by the calls of a log, in order.\<close>

definition raised :: "('e, 'v) entry list \<Rightarrow> 'e list" where
  "raised es = List.map_filter (\<lambda>x. case snd (snd x) of Inl e \<Rightarrow> Some e | Inr _ \<Rightarrow> None) es"


text \<open>The calls of a log, without cell numbers and answers.\<close>

definition calls :: "('e, 'v) entry list \<Rightarrow> ('e, 'v) call list" where
  "calls es = map (\<lambda>x. fst (snd x)) es"

fun is_ensemble :: "('e, 'v) call \<Rightarrow> bool" where
  "is_ensemble (Ensemble_new n d) = True"
| "is_ensemble c = False"

fun is_node :: "('e, 'v) call \<Rightarrow> bool" where
  "is_node (Node_new f) = True"
| "is_node c = False"

fun is_connection :: "('e, 'v) call \<Rightarrow> bool" where
  "is_connection (Connection_new pre post syn) = True"
| "is_connection c = False"

fun is_run :: "('e, 'v) call \<Rightarrow> bool" where
  "is_run (Sim_run sim t) = True"
| "is_run c = False"

fun is_simulator :: "('e, 'v) call \<Rightarrow> bool" where
  "is_simulator (Simulator_new m) = True"
| "is_simulator c = False"

fun is_rasterplot :: "('e, 'v) call \<Rightarrow> bool" where
  "is_rasterplot (Rasterplot t y) = True"
| "is_rasterplot c = False"

fun is_sorted_neurons :: "('e, 'v) call \<Rightarrow> bool" where
  "is_sorted_neurons (Sorted_neurons a sim n) = True"
| "is_sorted_neurons c = False"

fun is_getitem_cols :: "('e, 'v) call \<Rightarrow> bool" where
  "is_getitem_cols (Getitem_cols a ix) = True"
| "is_getitem_cols c = False"

text \<open>
  What a call contributes to the demonstration, for the calls that stand for one of its
  steps; \<^verbatim>\<open>plt.figure()\<close> opens a plot.
\<close>

datatype activity =
  Builds_model | Attaches_input | Wires_connection | Attaches_probe | Runs_simulation
  | Renders_plot | Reorders_rows

fun activity_of :: "('e, 'v) call \<Rightarrow> activity option" where
  "activity_of (Network_new l) = Some Builds_model"
| "activity_of (Ensemble_new n d) = Some Builds_model"
| "activity_of (Node_new f) = Some Attaches_input"
| "activity_of (Connection_new pre post syn) = Some Wires_connection"
| "activity_of (Probe_new x syn) = Some Attaches_probe"
| "activity_of (Sim_run sim t) = Some Runs_simulation"
| "activity_of Figure = Some Renders_plot"
| "activity_of (Sorted_neurons a sim n) = Some Reorders_rows"
| "activity_of c = None"

definition activities :: "('e, 'v) entry list \<Rightarrow> (nat \<times> activity) list" where
  "activities es = List.map_filter (\<lambda>x. map_option (Pair (fst x)) (activity_of (fst (snd x)))) es"

text \<open>
  The call forms that occur in the source, with the literal arguments written there;
  the objects passed are whatever the names hold at that moment.
\<close>

fun issued :: "('e, 'v) call \<Rightarrow> bool" where
  "issued (Magic m) = (m = ''matplotlib inline'')"
| "issued (Import m n) =
     ((m, n) \<in> set [(''matplotlib.pyplot'', ''plt''), (''numpy'', ''np''), (''nengo'', ''nengo''),
        (''nengo.utils.ensemble'', ''sorted_neurons''), (''nengo.utils.matplotlib'', ''rasterplot'')])"
| "issued (Network_new l) = (l = ''Many Neurons'')"
| "issued (Ensemble_new n d) = (n = 100 \<and> d = 1)"
| "issued (Node_new f) = (f = input_function)"
| "issued (Connection_new pre post syn) = (syn = 1 / 100)"
| "issued (Probe_new x syn) = (syn = None \<or> syn = Some (1 / 100))"
| "issued (Sim_run sim t) = (t = 1)"
| "issued (Plot x y fmt l) = ((fmt, l) = (None, ''A output'') \<or> (fmt, l) = (Some ''r'', ''Input''))"
| "issued (Xlim lo hi) = (lo = 0 \<and> hi = 1)"
| "issued (Sorted_neurons a sim n) = (n = 250)"
| "issued c = True"

subsection \<open>Reasoning tools: postconditions and trace invariants of statements\<close>

definition wp ::
  "('e, 'v, 'w, 'a) prog \<Rightarrow> ('e exn + 'a \<Rightarrow> ('e, 'v, 'w) kernel \<Rightarrow> bool) \<Rightarrow> ('e, 'v, 'w) kernel \<Rightarrow> bool" where
  "wp m Q s = (case m s of (r, s') \<Rightarrow> Q r s')"

text \<open>
  A statement emits \<open>P\<close> when it leaves the cell counter alone and only appends to the log
  entries that carry the current cell number and satisfy \<open>P\<close>.
\<close>

definition emits :: "(('e, 'v) entry \<Rightarrow> bool) \<Rightarrow> ('e, 'v, 'w, 'a) prog \<Rightarrow> bool" where
  "emits P m =
     (\<forall>s r s'. m s = (r, s') \<longrightarrow>
        cur s' = cur s \<and>
        (\<exists>new. log s' = log s @ new \<and> list_all (\<lambda>x. fst x = cur s \<and> P x) new))"

text \<open>
  A statement propagates when it returns only if no call of it raised, and an exception
  that leaves it is the one exception its calls raised (or a NameError, with no call
  having raised).
\<close>

definition consistent :: "'e exn + 'a \<Rightarrow> 'e list \<Rightarrow> bool" where
  "consistent r es =
     (case r of Inr _ \<Rightarrow> es = [] | Inl (Raised e) \<Rightarrow> es = [e] | Inl (Name_error x) \<Rightarrow> es = [])"


fun code_bodies :: "('e, 'v, 'w) cell list \<Rightarrow> ('e, 'v, 'w, unit) prog list list" where
  "code_bodies [] = []"
| "code_bodies (Markdown txt # cs) = code_bodies cs"
| "code_bodies (Code body # cs) = body # code_bodies cs"

fun run_bodies :: "nat \<Rightarrow> ('e, 'v, 'w, unit) prog list list \<Rightarrow> ('e, 'v, 'w, unit) prog" where
  "run_bodies n [] = ret ()"
| "run_bodies n (b # bs) = bnd (enter_cell n) (\<lambda>_. bnd (block b) (\<lambda>_. run_bodies (Suc n) bs))"


text \<open>
  The log of a run in which every call returns, as the source prescribes it: \<open>a i\<close> is
  the library's answer to the \<open>i\<close>-th call. The answers that the notebook binds to a name
  are \<^verbatim>\<open>model\<close> (\<open>a 6\<close>), \<^verbatim>\<open>A\<close> (\<open>a 8\<close>), \<^verbatim>\<open>sin\<close> (\<open>a 11\<close>), \<^verbatim>\<open>sin_probe\<close> (\<open>a 17\<close>),
  \<^verbatim>\<open>A_probe\<close> (\<open>a 18\<close>), \<^verbatim>\<open>A_spikes\<close> (\<open>a 20\<close>), \<^verbatim>\<open>sim\<close> (\<open>a 23\<close>) and \<^verbatim>\<open>indices\<close> (\<open>a 43\<close>).
\<close>

definition clean_trace :: "(nat \<Rightarrow> 'v) \<Rightarrow> ('e, 'v) entry list" where
  "clean_trace a =
    [(0, Magic ''matplotlib inline'', Inr (a 0)),
     (0, Import ''matplotlib.pyplot'' ''plt'', Inr (a 1)),
     (0, Import ''numpy'' ''np'', Inr (a 2)),
     (0, Import ''nengo'' ''nengo'', Inr (a 3)),
     (0, Import ''nengo.utils.ensemble'' ''sorted_neurons'', Inr (a 4)),
     (0, Import ''nengo.utils.matplotlib'' ''rasterplot'', Inr (a 5)),
     (1, Network_new ''Many Neurons'', Inr (a 6)),
     (1, Enter (a 6), Inr (a 7)),
     (1, Ensemble_new 100 1, Inr (a 8)),
     (1, Exit (a 6) None, Inr (a 9)),
     (2, Enter (a 6), Inr (a 10)),
     (2, Node_new input_function, Inr (a 11)),
     (2, Exit (a 6) None, Inr (a 12)),
     (3, Enter (a 6), Inr (a 13)),
     (3, Connection_new (a 11) (a 8) (1 / 100), Inr (a 14)),
     (3, Exit (a 6) None, Inr (a 15)),
     (4, Enter (a 6), Inr (a 16)),
     (4, Probe_new (a 11) None, Inr (a 17)),
     (4, Probe_new (a 8) (Some (1 / 100)), Inr (a 18)),
     (4, Get_neurons (a 8), Inr (a 19)),
     (4, Probe_new (a 19) None, Inr (a 20)),
     (4, Exit (a 6) None, Inr (a 21)),
     (5, Simulator_new (a 6), Inr (a 22)),
     (5, Enter (a 22), Inr (a 23)),
     (5, Sim_run (a 23) 1, Inr (a 24)),
     (5, Exit (a 22) None, Inr (a 25)),
     (6, Figure, Inr (a 26)),
     (6, Trange (a 23), Inr (a 27)),
     (6, Get_data (a 23), Inr (a 28)),
     (6, Getitem (a 28) (a 18), Inr (a 29)),
     (6, Plot (a 27) (a 29) None ''A output'', Inr (a 30)),
     (6, Trange (a 23), Inr (a 31)),
     (6, Get_data (a 23), Inr (a 32)),
     (6, Getitem (a 32) (a 17), Inr (a 33)),
     (6, Plot (a 31) (a 33) (Some ''r'') ''Input'', Inr (a 34)),
     (6, Xlim 0 1, Inr (a 35)),
     (6, Legend, Inr (a 36)),
     (6, Figure, Inr (a 37)),
     (6, Trange (a 23), Inr (a 38)),
     (6, Get_data (a 23), Inr (a 39)),
     (6, Getitem (a 39) (a 20), Inr (a 40)),
     (6, Rasterplot (a 38) (a 40), Inr (a 41)),
     (6, Xlim 0 1, Inr (a 42)),
     (7, Sorted_neurons (a 8) (a 23) 250, Inr (a 43)),
     (7, Figure, Inr (a 44)),
     (7, Trange (a 23), Inr (a 45)),
     (7, Get_data (a 23), Inr (a 46)),
     (7, Getitem (a 46) (a 20), Inr (a 47)),
     (7, Getitem_cols (a 47) (a 43), Inr (a 48)),
     (7, Rasterplot (a 45) (a 48), Inr (a 49)),
     (7, Xlim 0 1, Inr (a 50))]"

subsection \<open>Two small libraries to run the notebook on\<close>

text \<open>
  Objects are \<^verbatim>\<open>None\<close>, booleans and numbered handles. The demonstration library hands
  out a fresh handle for every call, returns the manager itself from \<^verbatim>\<open>__enter__\<close> and
  \<^verbatim>\<open>None\<close> from \<^verbatim>\<open>__exit__(None, None, None)\<close>, and answers the truth test with the
  truth value of the object. It is parameterised by the calls that raise and by what
  \<^verbatim>\<open>__exit__\<close> returns when it is handed an exception.
\<close>

datatype obj = None_obj | Bool_obj bool | Handle int

fun obj_truthy :: "obj \<Rightarrow> bool" where
  "obj_truthy None_obj = False"
| "obj_truthy (Bool_obj b) = b"
| "obj_truthy (Handle h) = True"

fun demo_answer :: "obj \<Rightarrow> (string, obj) call \<Rightarrow> int \<Rightarrow> (string + obj) \<times> int" where
  "demo_answer on_exit (Enter mgr) w = (Inr mgr, w)"
| "demo_answer on_exit (Exit mgr None) w = (Inr None_obj, w)"
| "demo_answer on_exit (Exit mgr (Some x)) w = (Inr on_exit, w)"
| "demo_answer on_exit (Truth v) w = (Inr (Bool_obj (obj_truthy v)), w)"
| "demo_answer on_exit c w = (Inr (Handle w), w + 1)"

definition demo_lib :: "((string, obj) call \<Rightarrow> bool) \<Rightarrow> obj \<Rightarrow> (string, obj, int) lib" where
  "demo_lib faulty on_exit =
     \<lparr>ext = (\<lambda>c w. if faulty c then (Inl ''Failure'', w) else demo_answer on_exit c w),
      is_true = (\<lambda>v. v = Bool_obj True)\<rparr>"

definition good_lib :: "(string, obj, int) lib" where
  \<comment> \<open>nothing raises\<close>
  "good_lib = demo_lib (\<lambda>c. False) None_obj"


section \<open>Trace invariants of the statements\<close>

lemma emitsI:
  assumes "\<And>s r s'. m s = (r, s') \<Longrightarrow> cur s' = cur s \<and> (\<exists>new. log s' = log s @ new \<and> list_all (\<lambda>x. fst x = cur s \<and> P x) new)"
  shows "emits P m"
  using assms unfolding emits_def by blast

lemma emitsD:
  assumes "emits P m" "m s = (r, s')"
  obtains new where "cur s' = cur s" "log s' = log s @ new" "list_all (\<lambda>x. fst x = cur s \<and> P x) new"
  using assms unfolding emits_def by blast

lemma emits_ret: "emits P (ret x)"
  by (rule emitsI) (simp add: ret_def)

lemma emits_raise: "emits P (raise x)"
  by (rule emitsI) (simp add: raise_def)

lemma emits_var: "emits P (var x)"
  by (rule emitsI) (auto simp add: var_def split: option.splits)

lemma emits_store: "emits P (store x v)"
  by (rule emitsI) (auto simp add: store_def)

lemma emits_call: "(\<And>n r. P (n, c, r)) \<Longrightarrow> emits P (call L c)"
  by (rule emitsI) (auto simp add: call_def split: prod.splits)

lemma emits_bnd:
  assumes "emits P m" "\<And>x. emits P (f x)"
  shows "emits P (bnd m f)"
proof (rule emitsI)
  fix s r s' assume run: "bnd m f s = (r, s')"
  obtain r1 s1 where m: "m s = (r1, s1)" by (cases "m s")
  from emitsD [OF assms(1) m] obtain new1 where
    1: "cur s1 = cur s" "log s1 = log s @ new1" "list_all (\<lambda>x. fst x = cur s \<and> P x) new1" .
  show "cur s' = cur s \<and> (\<exists>new. log s' = log s @ new \<and> list_all (\<lambda>x. fst x = cur s \<and> P x) new)"
  proof (cases r1)
    case (Inl x)
    with run m have "s' = s1" by (simp add: bnd_def)
    with 1 show ?thesis by simp
  next
    case (Inr a)
    with run m have f: "f a s1 = (r, s')" by (simp add: bnd_def)
    from emitsD [OF assms(2) f] obtain new2 where
      2: "cur s' = cur s1" "log s' = log s1 @ new2" "list_all (\<lambda>x. fst x = cur s1 \<and> P x) new2" .
    from 1 2 have "log s' = log s @ (new1 @ new2) \<and> list_all (\<lambda>x. fst x = cur s \<and> P x) (new1 @ new2)"
      by simp
    then have "\<exists>new. log s' = log s @ new \<and> list_all (\<lambda>x. fst x = cur s \<and> P x) new" ..
    with 1 2 show ?thesis by simp
  qed
qed

lemma emits_assign: "emits P m \<Longrightarrow> emits P (assign x m)"
  unfolding assign_def by (intro emits_bnd emits_store)

lemma emits_stmt: "emits P m \<Longrightarrow> emits P (stmt m)"
  unfolding stmt_def by (intro emits_bnd emits_ret)

lemma emits_with_body: "emits P body \<Longrightarrow> emits P (with_body target v body)"
  unfolding with_body_def by (cases target) (auto intro: emits_bnd emits_store)

lemma emits_attempt:
  assumes "emits P m" "\<And>r. emits P (h r)"
  shows "emits P (attempt m h)"
proof (rule emitsI)
  fix s r s' assume run: "attempt m h s = (r, s')"
  obtain r1 s1 where m: "m s = (r1, s1)" by (cases "m s")
  from emitsD [OF assms(1) m] obtain new1 where
    1: "cur s1 = cur s" "log s1 = log s @ new1" "list_all (\<lambda>x. fst x = cur s \<and> P x) new1" .
  from run m have h: "h r1 s1 = (r, s')" by (simp add: attempt_def)
  from emitsD [OF assms(2) h] obtain new2 where
    2: "cur s' = cur s1" "log s' = log s1 @ new2" "list_all (\<lambda>x. fst x = cur s1 \<and> P x) new2" .
  from 1 2 have "log s' = log s @ (new1 @ new2) \<and> list_all (\<lambda>x. fst x = cur s \<and> P x) (new1 @ new2)"
    by simp
  then have "\<exists>new. log s' = log s @ new \<and> list_all (\<lambda>x. fst x = cur s \<and> P x) new" ..
  with 1 2 show "cur s' = cur s \<and> (\<exists>new. log s' = log s @ new \<and> list_all (\<lambda>x. fst x = cur s \<and> P x) new)"
    by simp
qed

lemma emits_exit:
  assumes "\<And>n mgr x r. P (n, Exit mgr x, r)" "\<And>n v r. P (n, Truth v, r)"
  shows "emits P (case r of Inr u \<Rightarrow> stmt (call L (Exit mgr None))
            | Inl x \<Rightarrow> bnd (call L (Exit mgr (Some x))) (\<lambda>res.
                bnd (call L (Truth res)) (\<lambda>b. if is_true L b then ret () else raise x)))"
proof (cases r)
  case (Inl x)
  have "emits P (if is_true L b then ret () else raise x)" for b
    by (simp add: emits_ret emits_raise)
  then have "emits P (bnd (call L (Exit mgr (Some x))) (\<lambda>res.
      bnd (call L (Truth res)) (\<lambda>b. if is_true L b then ret () else raise x)))"
    by (intro emits_bnd emits_call assms)
  with Inl show ?thesis by simp
next
  case (Inr u)
  then show ?thesis by (simp add: emits_stmt emits_call assms)
qed

lemma emits_block_Nil: "emits P (block [])"
  by (simp add: emits_ret)

lemma emits_block_Cons: "emits P c \<Longrightarrow> emits P (block cs) \<Longrightarrow> emits P (block (c # cs))"
  by (simp add: emits_bnd)

lemma emits_with:
  assumes cm: "emits P cm" and body: "emits P (block body)"
    and enter: "\<And>n mgr r. P (n, Enter mgr, r)" and exit: "\<And>n mgr x r. P (n, Exit mgr x, r)"
    and truth: "\<And>n v r. P (n, Truth v, r)"
  shows "emits P (with_stmt L cm target body)"
  unfolding with_stmt_def
  by (intro emits_bnd cm emits_call enter emits_attempt emits_with_body body emits_exit exit truth)

lemmas emits_intros = emits_block_Nil emits_block_Cons emits_with emits_assign emits_stmt
  emits_bnd emits_call emits_var

lemma sorted_same_cell: "list_all (\<lambda>x. fst x = n \<and> P x) xs \<Longrightarrow> sorted (map fst xs)"
  by (induction xs) (auto simp add: list_all_iff)

lemma run_cells_bodies: "run_cells n cs = run_bodies n (code_bodies cs)"
  by (induction n cs rule: run_cells.induct) simp_all

lemma code_bodies_cells:
  "code_bodies (cells L) =
     [cell_imports L, cell_step1 L, cell_step2 L, cell_step3 L, cell_step4 L, cell_step5 L,
      cell_step6 L, cell_sorted L]"
  by (simp add: cells_def)

lemma notebook_bodies:
  "notebook L w =
     run_bodies 0 [cell_imports L, cell_step1 L, cell_step2 L, cell_step3 L, cell_step4 L,
       cell_step5 L, cell_step6 L, cell_sorted L] (fresh w)"
  by (simp add: notebook_def run_cells_bodies code_bodies_cells)

lemma run_bodies_emits:
  assumes "list_all (\<lambda>b. emits P (block b)) bs" "run_bodies n bs s = (r, s')"
  shows "\<exists>new. log s' = log s @ new \<and> sorted (map fst new) \<and> list_all (\<lambda>x. n \<le> fst x \<and> P x) new"
  using assms
proof (induction bs arbitrary: n s)
  case Nil
  then show ?case by (simp add: ret_def)
next
  case (Cons body bs)
  let ?s0 = "s\<lparr>cur := n\<rparr>"
  from Cons.prems have e: "emits P (block body)"
    and es: "list_all (\<lambda>b. emits P (block b)) bs" by simp_all
  obtain r1 s1 where b: "block body ?s0 = (r1, s1)" by (cases "block body ?s0")
  from emitsD [OF e b] obtain new1 where
    1: "cur s1 = n" "log s1 = log s @ new1" "list_all (\<lambda>x. fst x = n \<and> P x) new1" by auto
  have s1: "sorted (map fst new1)" by (rule sorted_same_cell [OF 1(3)])
  have a1: "list_all (\<lambda>x. n \<le> fst x \<and> P x) new1"
    using 1(3) by (simp add: list_all_iff)
  show ?case
  proof (cases r1)
    case (Inl x)
    with Cons.prems(2) b have "s' = s1" by (simp add: bnd_def enter_cell_def)
    with 1 s1 a1 show ?thesis by simp
  next
    case (Inr u)
    with Cons.prems(2) b have rest: "run_bodies (Suc n) bs s1 = (r, s')"
      by (simp add: bnd_def enter_cell_def)
    from Cons.IH [OF es rest] obtain new2 where
      2: "log s' = log s1 @ new2" "sorted (map fst new2)" "list_all (\<lambda>x. Suc n \<le> fst x \<and> P x) new2"
      by auto
    have "sorted (map fst (new1 @ new2))"
      using s1 2(2) 1(3) 2(3) by (auto simp add: sorted_append list_all_iff)
    moreover have "list_all (\<lambda>x. n \<le> fst x \<and> P x) (new1 @ new2)"
      using a1 2(3) by (auto simp add: list_all_iff)
    moreover have "log s' = log s @ (new1 @ new2)" using 1 2 by simp
    ultimately show ?thesis by blast
  qed
qed

lemma cells_issued:
  "list_all (\<lambda>b. emits (\<lambda>x. issued (fst (snd x))) (block b))
     [cell_imports L, cell_step1 L, cell_step2 L, cell_step3 L, cell_step4 L, cell_step5 L,
      cell_step6 L, cell_sorted L]"
  unfolding cell_imports_def cell_step1_def cell_step2_def cell_step3_def
    cell_step4_def cell_step5_def cell_step6_def cell_sorted_def sim_trange_def sim_data_def
    list.pred_inject
  by (intro conjI TrueI emits_intros) simp_all

lemma notebook_issued:
  "sorted (map fst (trace L w)) \<and> list_all (\<lambda>x. issued (fst (snd x))) (trace L w)"
proof -
  obtain r s where run: "notebook L w = (r, s)"
    by (cases "notebook L w")
  from run_bodies_emits [OF cells_issued run [unfolded notebook_bodies]] obtain new where
    "log s = log (fresh w) @ new" "sorted (map fst new)"
    "list_all (\<lambda>x. 0 \<le> fst x \<and> issued (fst (snd x))) new" by auto
  with run show ?thesis by (simp add: trace_def fresh_def)
qed

section \<open>Postconditions of the cells in a clean run\<close>

lemma clean_simps [simp]:
  "clean []" "clean (x # xs) = (ok_entry x \<and> clean xs)" "clean (xs @ ys) = (clean xs \<and> clean ys)"
  by (simp_all add: clean_def)

lemma ok_entry_simps [simp]: "ok_entry (n, c, Inr v)" "\<not> ok_entry (n, c, Inl e)"
  by (simp_all add: ok_entry_def)

lemma wpD: "m s = (r, s') \<Longrightarrow> wp m Q s \<Longrightarrow> Q r s'"
  by (simp add: wp_def)

lemma wp_ret: "wp (ret x) Q s = Q (Inr x) s"
  by (simp add: wp_def ret_def)

lemma wp_raise: "wp (raise x) Q s = Q (Inl x) s"
  by (simp add: wp_def raise_def)

lemma wp_bnd:
  "wp (bnd m f) Q s = wp m (\<lambda>r s'. case r of Inl x \<Rightarrow> Q (Inl x) s' | Inr a \<Rightarrow> wp (f a) Q s') s"
  by (simp add: wp_def bnd_def split: prod.splits sum.splits)

lemma wp_call:
  "wp (call L c) Q s =
    ((\<forall>e w'. ext L c (world s) = (Inl e, w') \<longrightarrow>
        Q (Inl (Raised e)) (s\<lparr>log := log s @ [(cur s, c, Inl e)], world := w'\<rparr>)) \<and>
     (\<forall>v w'. ext L c (world s) = (Inr v, w') \<longrightarrow>
        Q (Inr v) (s\<lparr>log := log s @ [(cur s, c, Inr v)], world := w'\<rparr>)))"
  by (auto simp add: wp_def call_def split: prod.splits sum.splits)

lemma wp_var:
  "wp (var x) Q s = (case env s x of None \<Rightarrow> Q (Inl (Name_error x)) s | Some v \<Rightarrow> Q (Inr v) s)"
  by (simp add: wp_def var_def split: option.splits)

lemma wp_store: "wp (store x v) Q s = Q (Inr ()) (s\<lparr>env := (env s)(x \<mapsto> v)\<rparr>)"
  by (simp add: wp_def store_def)

lemma wp_block_Nil: "wp (block []) Q s = Q (Inr ()) s"
  by (simp add: wp_ret)

lemma wp_block_Cons:
  "wp (block (c # cs)) Q s = wp c (\<lambda>r s'. case r of Inl x \<Rightarrow> Q (Inl x) s' | Inr a \<Rightarrow> wp (block cs) Q s') s"
  by (simp add: wp_bnd)

lemma wp_attempt: "wp (attempt m h) Q s = wp m (\<lambda>r s'. wp (h r) Q s') s"
  by (simp add: wp_def attempt_def split: prod.splits)

lemma wp_case_sum:
  "wp (case r of Inl x \<Rightarrow> f x | Inr u \<Rightarrow> g u) Q s =
     (case r of Inl x \<Rightarrow> wp (f x) Q s | Inr u \<Rightarrow> wp (g u) Q s)"
  by (cases r) simp_all

lemma wp_if: "wp (if b then m else n) Q s = (if b then wp m Q s else wp n Q s)"
  by simp

lemma wp_with_body:
  "wp (with_body None v body) Q s = wp body Q s"
  "wp (with_body (Some x) v body) Q s = wp body Q (s\<lparr>env := (env s)(x \<mapsto> v)\<rparr>)"
  by (simp_all add: with_body_def wp_bnd wp_store)

lemmas wp_rules = wp_ret wp_raise wp_bnd wp_call wp_var wp_store wp_block_Nil wp_block_Cons
  wp_attempt wp_case_sum wp_if wp_with_body with_stmt_def assign_def stmt_def


lemma run_bodies_step:
  assumes run: "run_bodies n (b # bs) s = (r, s')"
    and cl: "clean (log s')"
    and rest: "list_all (\<lambda>b. emits P (block b)) bs"
    and spec: "\<And>r1 s1. block b (s\<lparr>cur := n\<rparr>) = (r1, s1) \<Longrightarrow> clean (log s1) \<Longrightarrow> r1 = Inr () \<and> Q s1"
  shows "\<exists>s1. Q s1 \<and> run_bodies (Suc n) bs s1 = (r, s')"
proof -
  obtain r1 s1 where b: "block b (s\<lparr>cur := n\<rparr>) = (r1, s1)"
    by (cases "block b (s\<lparr>cur := n\<rparr>)")
  show ?thesis
  proof (cases r1)
    case (Inl x)
    with run b have "s' = s1" by (simp add: bnd_def enter_cell_def)
    with cl spec [OF b] Inl show ?thesis by simp
  next
    case (Inr u)
    with run b have rest_run: "run_bodies (Suc n) bs s1 = (r, s')"
      by (simp add: bnd_def enter_cell_def)
    from run_bodies_emits [OF rest rest_run] obtain new where "log s' = log s1 @ new" by auto
    with cl have "clean (log s1)" by simp
    from spec [OF b this] rest_run show ?thesis by auto
  qed
qed

lemma imports_clean:
  assumes run: "run_bodies n (cell_imports L # bs) s = (r, s')"
    and cl: "clean (log s')"
    and rest: "list_all (\<lambda>b. emits P (block b)) bs"
  obtains s1 v0 v1 v2 v3 v4 v5 where
    "log s1 = log s @
       [(n, Magic ''matplotlib inline'', Inr v0),
        (n, Import ''matplotlib.pyplot'' ''plt'', Inr v1), (n, Import ''numpy'' ''np'', Inr v2),
        (n, Import ''nengo'' ''nengo'', Inr v3),
        (n, Import ''nengo.utils.ensemble'' ''sorted_neurons'', Inr v4),
        (n, Import ''nengo.utils.matplotlib'' ''rasterplot'', Inr v5)]"
    "env s1 = env s"
    "run_bodies (Suc n) bs s1 = (r, s')"
proof -
  let ?Q = "\<lambda>s1. \<exists>v0 v1 v2 v3 v4 v5.
      log s1 = log s @
       [(n, Magic ''matplotlib inline'', Inr v0),
        (n, Import ''matplotlib.pyplot'' ''plt'', Inr v1), (n, Import ''numpy'' ''np'', Inr v2),
        (n, Import ''nengo'' ''nengo'', Inr v3),
        (n, Import ''nengo.utils.ensemble'' ''sorted_neurons'', Inr v4),
        (n, Import ''nengo.utils.matplotlib'' ''rasterplot'', Inr v5)] \<and>
      env s1 = env s"
  have "\<exists>s1. ?Q s1 \<and> run_bodies (Suc n) bs s1 = (r, s')"
  proof (rule run_bodies_step [OF run cl rest])
    fix r1 s1
    assume b: "block (cell_imports L) (s\<lparr>cur := n\<rparr>) = (r1, s1)" and c: "clean (log s1)"
    have "wp (block (cell_imports L)) (\<lambda>r s1. clean (log s1) \<longrightarrow> r = Inr () \<and> ?Q s1) (s\<lparr>cur := n\<rparr>)"
      unfolding cell_imports_def using assms by (simp add: wp_rules)
    from wpD [OF b this] c show "r1 = Inr () \<and> ?Q s1" by simp
  qed
  then show ?thesis using that by blast
qed

lemma step1_clean:
  assumes run: "run_bodies n (cell_step1 L # bs) s = (r, s')"
    and cl: "clean (log s')"
    and rest: "list_all (\<lambda>b. emits P (block b)) bs"
  obtains s1 v6 v7 v8 v9 where
    "log s1 = log s @
       [(n, Network_new ''Many Neurons'', Inr v6), (n, Enter v6, Inr v7),
        (n, Ensemble_new 100 1, Inr v8), (n, Exit v6 None, Inr v9)]"
    "env s1 = (env s)(''model'' \<mapsto> v6, ''A'' \<mapsto> v8)"
    "run_bodies (Suc n) bs s1 = (r, s')"
proof -
  let ?Q = "\<lambda>s1. \<exists>v6 v7 v8 v9.
      log s1 = log s @
       [(n, Network_new ''Many Neurons'', Inr v6), (n, Enter v6, Inr v7),
        (n, Ensemble_new 100 1, Inr v8), (n, Exit v6 None, Inr v9)] \<and>
      env s1 = (env s)(''model'' \<mapsto> v6, ''A'' \<mapsto> v8)"
  have "\<exists>s1. ?Q s1 \<and> run_bodies (Suc n) bs s1 = (r, s')"
  proof (rule run_bodies_step [OF run cl rest])
    fix r1 s1
    assume b: "block (cell_step1 L) (s\<lparr>cur := n\<rparr>) = (r1, s1)" and c: "clean (log s1)"
    have "wp (block (cell_step1 L)) (\<lambda>r s1. clean (log s1) \<longrightarrow> r = Inr () \<and> ?Q s1) (s\<lparr>cur := n\<rparr>)"
      unfolding cell_step1_def using assms by (simp add: wp_rules)
    from wpD [OF b this] c show "r1 = Inr () \<and> ?Q s1" by simp
  qed
  then show ?thesis using that by blast
qed

lemma step2_clean:
  assumes run: "run_bodies n (cell_step2 L # bs) s = (r, s')"
    and cl: "clean (log s')"
    and rest: "list_all (\<lambda>b. emits P (block b)) bs"
    and "env s ''model'' = Some v6"
  obtains s1 v10 v11 v12 where
    "log s1 = log s @
       [(n, Enter v6, Inr v10), (n, Node_new input_function, Inr v11),
        (n, Exit v6 None, Inr v12)]"
    "env s1 = (env s)(''sin'' \<mapsto> v11)"
    "run_bodies (Suc n) bs s1 = (r, s')"
proof -
  let ?Q = "\<lambda>s1. \<exists>v10 v11 v12.
      log s1 = log s @
       [(n, Enter v6, Inr v10), (n, Node_new input_function, Inr v11),
        (n, Exit v6 None, Inr v12)] \<and>
      env s1 = (env s)(''sin'' \<mapsto> v11)"
  have "\<exists>s1. ?Q s1 \<and> run_bodies (Suc n) bs s1 = (r, s')"
  proof (rule run_bodies_step [OF run cl rest])
    fix r1 s1
    assume b: "block (cell_step2 L) (s\<lparr>cur := n\<rparr>) = (r1, s1)" and c: "clean (log s1)"
    have "wp (block (cell_step2 L)) (\<lambda>r s1. clean (log s1) \<longrightarrow> r = Inr () \<and> ?Q s1) (s\<lparr>cur := n\<rparr>)"
      unfolding cell_step2_def using assms by (simp add: wp_rules)
    from wpD [OF b this] c show "r1 = Inr () \<and> ?Q s1" by simp
  qed
  then show ?thesis using that by blast
qed

lemma step3_clean:
  assumes run: "run_bodies n (cell_step3 L # bs) s = (r, s')"
    and cl: "clean (log s')"
    and rest: "list_all (\<lambda>b. emits P (block b)) bs"
    and "env s ''model'' = Some v6"
    and "env s ''sin'' = Some v11"
    and "env s ''A'' = Some v8"
  obtains s1 v13 v14 v15 where
    "log s1 = log s @
       [(n, Enter v6, Inr v13), (n, Connection_new v11 v8 (1 / 100), Inr v14),
        (n, Exit v6 None, Inr v15)]"
    "env s1 = env s"
    "run_bodies (Suc n) bs s1 = (r, s')"
proof -
  let ?Q = "\<lambda>s1. \<exists>v13 v14 v15.
      log s1 = log s @
       [(n, Enter v6, Inr v13), (n, Connection_new v11 v8 (1 / 100), Inr v14),
        (n, Exit v6 None, Inr v15)] \<and>
      env s1 = env s"
  have "\<exists>s1. ?Q s1 \<and> run_bodies (Suc n) bs s1 = (r, s')"
  proof (rule run_bodies_step [OF run cl rest])
    fix r1 s1
    assume b: "block (cell_step3 L) (s\<lparr>cur := n\<rparr>) = (r1, s1)" and c: "clean (log s1)"
    have "wp (block (cell_step3 L)) (\<lambda>r s1. clean (log s1) \<longrightarrow> r = Inr () \<and> ?Q s1) (s\<lparr>cur := n\<rparr>)"
      unfolding cell_step3_def using assms by (simp add: wp_rules)
    from wpD [OF b this] c show "r1 = Inr () \<and> ?Q s1" by simp
  qed
  then show ?thesis using that by blast
qed

lemma step4_clean:
  assumes run: "run_bodies n (cell_step4 L # bs) s = (r, s')"
    and cl: "clean (log s')"
    and rest: "list_all (\<lambda>b. emits P (block b)) bs"
    and "env s ''model'' = Some v6"
    and "env s ''sin'' = Some v11"
    and "env s ''A'' = Some v8"
  obtains s1 v16 v17 v18 v19 v20 v21 where
    "log s1 = log s @
       [(n, Enter v6, Inr v16), (n, Probe_new v11 None, Inr v17),
        (n, Probe_new v8 (Some (1 / 100)), Inr v18), (n, Get_neurons v8, Inr v19),
        (n, Probe_new v19 None, Inr v20), (n, Exit v6 None, Inr v21)]"
    "env s1 = (env s)(''sin_probe'' \<mapsto> v17, ''A_probe'' \<mapsto> v18, ''A_spikes'' \<mapsto> v20)"
    "run_bodies (Suc n) bs s1 = (r, s')"
proof -
  let ?Q = "\<lambda>s1. \<exists>v16 v17 v18 v19 v20 v21.
      log s1 = log s @
       [(n, Enter v6, Inr v16), (n, Probe_new v11 None, Inr v17),
        (n, Probe_new v8 (Some (1 / 100)), Inr v18), (n, Get_neurons v8, Inr v19),
        (n, Probe_new v19 None, Inr v20), (n, Exit v6 None, Inr v21)] \<and>
      env s1 = (env s)(''sin_probe'' \<mapsto> v17, ''A_probe'' \<mapsto> v18, ''A_spikes'' \<mapsto> v20)"
  have "\<exists>s1. ?Q s1 \<and> run_bodies (Suc n) bs s1 = (r, s')"
  proof (rule run_bodies_step [OF run cl rest])
    fix r1 s1
    assume b: "block (cell_step4 L) (s\<lparr>cur := n\<rparr>) = (r1, s1)" and c: "clean (log s1)"
    have "wp (block (cell_step4 L)) (\<lambda>r s1. clean (log s1) \<longrightarrow> r = Inr () \<and> ?Q s1) (s\<lparr>cur := n\<rparr>)"
      unfolding cell_step4_def using assms by (simp add: wp_rules)
    from wpD [OF b this] c show "r1 = Inr () \<and> ?Q s1" by simp
  qed
  then show ?thesis using that by blast
qed

lemma step5_clean:
  assumes run: "run_bodies n (cell_step5 L # bs) s = (r, s')"
    and cl: "clean (log s')"
    and rest: "list_all (\<lambda>b. emits P (block b)) bs"
    and "env s ''model'' = Some v6"
  obtains s1 v22 v23 v24 v25 where
    "log s1 = log s @
       [(n, Simulator_new v6, Inr v22), (n, Enter v22, Inr v23), (n, Sim_run v23 1, Inr v24),
        (n, Exit v22 None, Inr v25)]"
    "env s1 = (env s)(''sim'' \<mapsto> v23)"
    "run_bodies (Suc n) bs s1 = (r, s')"
proof -
  let ?Q = "\<lambda>s1. \<exists>v22 v23 v24 v25.
      log s1 = log s @
       [(n, Simulator_new v6, Inr v22), (n, Enter v22, Inr v23), (n, Sim_run v23 1, Inr v24),
        (n, Exit v22 None, Inr v25)] \<and>
      env s1 = (env s)(''sim'' \<mapsto> v23)"
  have "\<exists>s1. ?Q s1 \<and> run_bodies (Suc n) bs s1 = (r, s')"
  proof (rule run_bodies_step [OF run cl rest])
    fix r1 s1
    assume b: "block (cell_step5 L) (s\<lparr>cur := n\<rparr>) = (r1, s1)" and c: "clean (log s1)"
    have "wp (block (cell_step5 L)) (\<lambda>r s1. clean (log s1) \<longrightarrow> r = Inr () \<and> ?Q s1) (s\<lparr>cur := n\<rparr>)"
      unfolding cell_step5_def using assms by (simp add: wp_rules)
    from wpD [OF b this] c show "r1 = Inr () \<and> ?Q s1" by simp
  qed
  then show ?thesis using that by blast
qed

lemma step6_clean:
  assumes run: "run_bodies n (cell_step6 L # bs) s = (r, s')"
    and cl: "clean (log s')"
    and rest: "list_all (\<lambda>b. emits P (block b)) bs"
    and "env s ''sim'' = Some v23"
    and "env s ''A_probe'' = Some v18"
    and "env s ''sin_probe'' = Some v17"
    and "env s ''A_spikes'' = Some v20"
  obtains s1 v26 v27 v28 v29 v30 v31 v32 v33 v34 v35 v36 v37 v38 v39 v40 v41 v42 where
    "log s1 = log s @
       [(n, Figure, Inr v26), (n, Trange v23, Inr v27), (n, Get_data v23, Inr v28),
        (n, Getitem v28 v18, Inr v29), (n, Plot v27 v29 None ''A output'', Inr v30),
        (n, Trange v23, Inr v31), (n, Get_data v23, Inr v32), (n, Getitem v32 v17, Inr v33),
        (n, Plot v31 v33 (Some ''r'') ''Input'', Inr v34), (n, Xlim 0 1, Inr v35),
        (n, Legend, Inr v36), (n, Figure, Inr v37), (n, Trange v23, Inr v38),
        (n, Get_data v23, Inr v39), (n, Getitem v39 v20, Inr v40),
        (n, Rasterplot v38 v40, Inr v41), (n, Xlim 0 1, Inr v42)]"
    "env s1 = env s"
    "run_bodies (Suc n) bs s1 = (r, s')"
proof -
  let ?Q = "\<lambda>s1. \<exists>v26 v27 v28 v29 v30 v31 v32 v33 v34 v35 v36 v37 v38 v39 v40 v41 v42.
      log s1 = log s @
       [(n, Figure, Inr v26), (n, Trange v23, Inr v27), (n, Get_data v23, Inr v28),
        (n, Getitem v28 v18, Inr v29), (n, Plot v27 v29 None ''A output'', Inr v30),
        (n, Trange v23, Inr v31), (n, Get_data v23, Inr v32), (n, Getitem v32 v17, Inr v33),
        (n, Plot v31 v33 (Some ''r'') ''Input'', Inr v34), (n, Xlim 0 1, Inr v35),
        (n, Legend, Inr v36), (n, Figure, Inr v37), (n, Trange v23, Inr v38),
        (n, Get_data v23, Inr v39), (n, Getitem v39 v20, Inr v40),
        (n, Rasterplot v38 v40, Inr v41), (n, Xlim 0 1, Inr v42)] \<and>
      env s1 = env s"
  have "\<exists>s1. ?Q s1 \<and> run_bodies (Suc n) bs s1 = (r, s')"
  proof (rule run_bodies_step [OF run cl rest])
    fix r1 s1
    assume b: "block (cell_step6 L) (s\<lparr>cur := n\<rparr>) = (r1, s1)" and c: "clean (log s1)"
    have "wp (block (cell_step6 L)) (\<lambda>r s1. clean (log s1) \<longrightarrow> r = Inr () \<and> ?Q s1) (s\<lparr>cur := n\<rparr>)"
      unfolding cell_step6_def sim_trange_def sim_data_def using assms by (simp add: wp_rules)
    from wpD [OF b this] c show "r1 = Inr () \<and> ?Q s1" by simp
  qed
  then show ?thesis using that by blast
qed

lemma sorted_cell_clean:
  assumes run: "run_bodies n (cell_sorted L # bs) s = (r, s')"
    and cl: "clean (log s')"
    and rest: "list_all (\<lambda>b. emits P (block b)) bs"
    and "env s ''A'' = Some v8"
    and "env s ''sim'' = Some v23"
    and "env s ''A_spikes'' = Some v20"
  obtains s1 v43 v44 v45 v46 v47 v48 v49 v50 where
    "log s1 = log s @
       [(n, Sorted_neurons v8 v23 250, Inr v43), (n, Figure, Inr v44), (n, Trange v23, Inr v45),
        (n, Get_data v23, Inr v46), (n, Getitem v46 v20, Inr v47),
        (n, Getitem_cols v47 v43, Inr v48), (n, Rasterplot v45 v48, Inr v49),
        (n, Xlim 0 1, Inr v50)]"
    "env s1 = (env s)(''indices'' \<mapsto> v43)"
    "run_bodies (Suc n) bs s1 = (r, s')"
proof -
  let ?Q = "\<lambda>s1. \<exists>v43 v44 v45 v46 v47 v48 v49 v50.
      log s1 = log s @
       [(n, Sorted_neurons v8 v23 250, Inr v43), (n, Figure, Inr v44), (n, Trange v23, Inr v45),
        (n, Get_data v23, Inr v46), (n, Getitem v46 v20, Inr v47),
        (n, Getitem_cols v47 v43, Inr v48), (n, Rasterplot v45 v48, Inr v49),
        (n, Xlim 0 1, Inr v50)] \<and>
      env s1 = (env s)(''indices'' \<mapsto> v43)"
  have "\<exists>s1. ?Q s1 \<and> run_bodies (Suc n) bs s1 = (r, s')"
  proof (rule run_bodies_step [OF run cl rest])
    fix r1 s1
    assume b: "block (cell_sorted L) (s\<lparr>cur := n\<rparr>) = (r1, s1)" and c: "clean (log s1)"
    have "wp (block (cell_sorted L)) (\<lambda>r s1. clean (log s1) \<longrightarrow> r = Inr () \<and> ?Q s1) (s\<lparr>cur := n\<rparr>)"
      unfolding cell_sorted_def sim_trange_def sim_data_def using assms by (simp add: wp_rules)
    from wpD [OF b this] c show "r1 = Inr () \<and> ?Q s1" by simp
  qed
  then show ?thesis using that by blast
qed

text \<open>
  The run in which no call raises: it completes, and its log is the expected one, whatever
  the library answers.
\<close>

lemma clean_run:
  assumes cl: "clean (trace L w)"
  shows "outcome L w = Inr () \<and> (\<exists>a. trace L w = clean_trace a)"
proof -
  obtain r s where run: "notebook L w = (r, s)" by (cases "notebook L w")
  with cl have cls: "clean (log s)" by (simp add: trace_def)
  note E = cells_issued [of L, unfolded list.pred_inject]
  define s0 :: "('a, 'b, 'c) kernel" where "s0 = fresh w"
  have l0: "log s0 = []" by (simp add: s0_def fresh_def)
  from run have run0: "run_bodies 0
      [cell_imports L, cell_step1 L, cell_step2 L, cell_step3 L, cell_step4 L, cell_step5 L,
       cell_step6 L, cell_sorted L] s0 = (r, s)"
    by (simp add: notebook_bodies s0_def)
  have rest0: "list_all (\<lambda>b. emits (\<lambda>x. issued (fst (snd x))) (block b))
      [cell_step1 L, cell_step2 L, cell_step3 L, cell_step4 L, cell_step5 L, cell_step6 L,
       cell_sorted L]"
    using E by simp
  obtain s1 v0 v1 v2 v3 v4 v5 where
    l1: "log s1 = log s0 @
       [(0, Magic ''matplotlib inline'', Inr v0),
        (0, Import ''matplotlib.pyplot'' ''plt'', Inr v1), (0, Import ''numpy'' ''np'', Inr v2),
        (0, Import ''nengo'' ''nengo'', Inr v3),
        (0, Import ''nengo.utils.ensemble'' ''sorted_neurons'', Inr v4),
        (0, Import ''nengo.utils.matplotlib'' ''rasterplot'', Inr v5)]"
    and e1: "env s1 = env s0"
    and run1: "run_bodies (Suc 0)
      [cell_step1 L, cell_step2 L, cell_step3 L, cell_step4 L, cell_step5 L, cell_step6 L,
       cell_sorted L] s1 = (r, s)"
    using imports_clean [OF run0 cls rest0] by blast
  have rest1: "list_all (\<lambda>b. emits (\<lambda>x. issued (fst (snd x))) (block b))
      [cell_step2 L, cell_step3 L, cell_step4 L, cell_step5 L, cell_step6 L, cell_sorted L]"
    using E by simp
  obtain s2 v6 v7 v8 v9 where
    l2: "log s2 = log s1 @
       [(Suc 0, Network_new ''Many Neurons'', Inr v6), (Suc 0, Enter v6, Inr v7),
        (Suc 0, Ensemble_new 100 1, Inr v8), (Suc 0, Exit v6 None, Inr v9)]"
    and e2: "env s2 = (env s1)(''model'' \<mapsto> v6, ''A'' \<mapsto> v8)"
    and run2: "run_bodies (Suc (Suc 0))
      [cell_step2 L, cell_step3 L, cell_step4 L, cell_step5 L, cell_step6 L, cell_sorted L] s2 = (r, s)"
    using step1_clean [OF run1 cls rest1] by blast
  have rest2: "list_all (\<lambda>b. emits (\<lambda>x. issued (fst (snd x))) (block b))
      [cell_step3 L, cell_step4 L, cell_step5 L, cell_step6 L, cell_sorted L]"
    using E by simp
  have n2: "env s2 ''model'' = Some v6"
    by (simp_all add: e1 e2)
  obtain s3 v10 v11 v12 where
    l3: "log s3 = log s2 @
       [(Suc (Suc 0), Enter v6, Inr v10), (Suc (Suc 0), Node_new input_function, Inr v11),
        (Suc (Suc 0), Exit v6 None, Inr v12)]"
    and e3: "env s3 = (env s2)(''sin'' \<mapsto> v11)"
    and run3: "run_bodies (Suc (Suc (Suc 0)))
      [cell_step3 L, cell_step4 L, cell_step5 L, cell_step6 L, cell_sorted L] s3 = (r, s)"
    using step2_clean [OF run2 cls rest2 n2] by blast
  have rest3: "list_all (\<lambda>b. emits (\<lambda>x. issued (fst (snd x))) (block b))
      [cell_step4 L, cell_step5 L, cell_step6 L, cell_sorted L]"
    using E by simp
  have n3: "env s3 ''model'' = Some v6"
    "env s3 ''sin'' = Some v11"
    "env s3 ''A'' = Some v8"
    by (simp_all add: e1 e2 e3)
  obtain s4 v13 v14 v15 where
    l4: "log s4 = log s3 @
       [(Suc (Suc (Suc 0)), Enter v6, Inr v13),
        (Suc (Suc (Suc 0)), Connection_new v11 v8 (1 / 100), Inr v14),
        (Suc (Suc (Suc 0)), Exit v6 None, Inr v15)]"
    and e4: "env s4 = env s3"
    and run4: "run_bodies (Suc (Suc (Suc (Suc 0))))
      [cell_step4 L, cell_step5 L, cell_step6 L, cell_sorted L] s4 = (r, s)"
    using step3_clean [OF run3 cls rest3 n3] by blast
  have rest4: "list_all (\<lambda>b. emits (\<lambda>x. issued (fst (snd x))) (block b))
      [cell_step5 L, cell_step6 L, cell_sorted L]"
    using E by simp
  have n4: "env s4 ''model'' = Some v6"
    "env s4 ''sin'' = Some v11"
    "env s4 ''A'' = Some v8"
    by (simp_all add: e1 e2 e3 e4)
  obtain s5 v16 v17 v18 v19 v20 v21 where
    l5: "log s5 = log s4 @
       [(Suc (Suc (Suc (Suc 0))), Enter v6, Inr v16),
        (Suc (Suc (Suc (Suc 0))), Probe_new v11 None, Inr v17),
        (Suc (Suc (Suc (Suc 0))), Probe_new v8 (Some (1 / 100)), Inr v18),
        (Suc (Suc (Suc (Suc 0))), Get_neurons v8, Inr v19),
        (Suc (Suc (Suc (Suc 0))), Probe_new v19 None, Inr v20),
        (Suc (Suc (Suc (Suc 0))), Exit v6 None, Inr v21)]"
    and e5: "env s5 = (env s4)(''sin_probe'' \<mapsto> v17, ''A_probe'' \<mapsto> v18, ''A_spikes'' \<mapsto> v20)"
    and run5: "run_bodies (Suc (Suc (Suc (Suc (Suc 0)))))
      [cell_step5 L, cell_step6 L, cell_sorted L] s5 = (r, s)"
    using step4_clean [OF run4 cls rest4 n4] by blast
  have rest5: "list_all (\<lambda>b. emits (\<lambda>x. issued (fst (snd x))) (block b))
      [cell_step6 L, cell_sorted L]"
    using E by simp
  have n5: "env s5 ''model'' = Some v6"
    by (simp_all add: e1 e2 e3 e4 e5)
  obtain s6 v22 v23 v24 v25 where
    l6: "log s6 = log s5 @
       [(Suc (Suc (Suc (Suc (Suc 0)))), Simulator_new v6, Inr v22),
        (Suc (Suc (Suc (Suc (Suc 0)))), Enter v22, Inr v23),
        (Suc (Suc (Suc (Suc (Suc 0)))), Sim_run v23 1, Inr v24),
        (Suc (Suc (Suc (Suc (Suc 0)))), Exit v22 None, Inr v25)]"
    and e6: "env s6 = (env s5)(''sim'' \<mapsto> v23)"
    and run6: "run_bodies (Suc (Suc (Suc (Suc (Suc (Suc 0))))))
      [cell_step6 L, cell_sorted L] s6 = (r, s)"
    using step5_clean [OF run5 cls rest5 n5] by blast
  have rest6: "list_all (\<lambda>b. emits (\<lambda>x. issued (fst (snd x))) (block b))
      [cell_sorted L]"
    using E by simp
  have n6: "env s6 ''sim'' = Some v23"
    "env s6 ''A_probe'' = Some v18"
    "env s6 ''sin_probe'' = Some v17"
    "env s6 ''A_spikes'' = Some v20"
    by (simp_all add: e1 e2 e3 e4 e5 e6)
  obtain s7 v26 v27 v28 v29 v30 v31 v32 v33 v34 v35 v36 v37 v38 v39 v40 v41 v42 where
    l7: "log s7 = log s6 @
       [(Suc (Suc (Suc (Suc (Suc (Suc 0))))), Figure, Inr v26),
        (Suc (Suc (Suc (Suc (Suc (Suc 0))))), Trange v23, Inr v27),
        (Suc (Suc (Suc (Suc (Suc (Suc 0))))), Get_data v23, Inr v28),
        (Suc (Suc (Suc (Suc (Suc (Suc 0))))), Getitem v28 v18, Inr v29),
        (Suc (Suc (Suc (Suc (Suc (Suc 0))))), Plot v27 v29 None ''A output'', Inr v30),
        (Suc (Suc (Suc (Suc (Suc (Suc 0))))), Trange v23, Inr v31),
        (Suc (Suc (Suc (Suc (Suc (Suc 0))))), Get_data v23, Inr v32),
        (Suc (Suc (Suc (Suc (Suc (Suc 0))))), Getitem v32 v17, Inr v33),
        (Suc (Suc (Suc (Suc (Suc (Suc 0))))), Plot v31 v33 (Some ''r'') ''Input'', Inr v34),
        (Suc (Suc (Suc (Suc (Suc (Suc 0))))), Xlim 0 1, Inr v35),
        (Suc (Suc (Suc (Suc (Suc (Suc 0))))), Legend, Inr v36),
        (Suc (Suc (Suc (Suc (Suc (Suc 0))))), Figure, Inr v37),
        (Suc (Suc (Suc (Suc (Suc (Suc 0))))), Trange v23, Inr v38),
        (Suc (Suc (Suc (Suc (Suc (Suc 0))))), Get_data v23, Inr v39),
        (Suc (Suc (Suc (Suc (Suc (Suc 0))))), Getitem v39 v20, Inr v40),
        (Suc (Suc (Suc (Suc (Suc (Suc 0))))), Rasterplot v38 v40, Inr v41),
        (Suc (Suc (Suc (Suc (Suc (Suc 0))))), Xlim 0 1, Inr v42)]"
    and e7: "env s7 = env s6"
    and run7: "run_bodies (Suc (Suc (Suc (Suc (Suc (Suc (Suc 0)))))))
      [cell_sorted L] s7 = (r, s)"
    using step6_clean [OF run6 cls rest6 n6] by blast
  have rest7: "list_all (\<lambda>b. emits (\<lambda>x. issued (fst (snd x))) (block b))
      []"
    using E by simp
  have n7: "env s7 ''A'' = Some v8"
    "env s7 ''sim'' = Some v23"
    "env s7 ''A_spikes'' = Some v20"
    by (simp_all add: e1 e2 e3 e4 e5 e6 e7)
  obtain s8 v43 v44 v45 v46 v47 v48 v49 v50 where
    l8: "log s8 = log s7 @
       [(Suc (Suc (Suc (Suc (Suc (Suc (Suc 0)))))), Sorted_neurons v8 v23 250, Inr v43),
        (Suc (Suc (Suc (Suc (Suc (Suc (Suc 0)))))), Figure, Inr v44),
        (Suc (Suc (Suc (Suc (Suc (Suc (Suc 0)))))), Trange v23, Inr v45),
        (Suc (Suc (Suc (Suc (Suc (Suc (Suc 0)))))), Get_data v23, Inr v46),
        (Suc (Suc (Suc (Suc (Suc (Suc (Suc 0)))))), Getitem v46 v20, Inr v47),
        (Suc (Suc (Suc (Suc (Suc (Suc (Suc 0)))))), Getitem_cols v47 v43, Inr v48),
        (Suc (Suc (Suc (Suc (Suc (Suc (Suc 0)))))), Rasterplot v45 v48, Inr v49),
        (Suc (Suc (Suc (Suc (Suc (Suc (Suc 0)))))), Xlim 0 1, Inr v50)]"
    and e8: "env s8 = (env s7)(''indices'' \<mapsto> v43)"
    and run8: "run_bodies (Suc (Suc (Suc (Suc (Suc (Suc (Suc (Suc 0))))))))
      [] s8 = (r, s)"
    using sorted_cell_clean [OF run7 cls rest7 n7] by blast
  from run8 have fin: "r = Inr ()" "s = s8" by (simp_all add: ret_def)
  have "log s = clean_trace (\<lambda>i.
      [v0, v1, v2, v3, v4, v5, v6, v7, v8, v9, v10, v11, v12, v13, v14, v15, v16, v17, v18, v19,
       v20, v21, v22, v23, v24, v25, v26, v27, v28, v29, v30, v31, v32, v33, v34, v35, v36, v37,
       v38, v39, v40, v41, v42, v43, v44, v45, v46, v47, v48, v49, v50] ! i)"
    unfolding fin l8 l7 l6 l5 l4 l3 l2 l1 l0 clean_trace_def by simp
  with run fin show ?thesis by (auto simp add: outcome_def trace_def)
qed

section \<open>Exceptions: what the statements do with a failure\<close>

lemma raised_simps [simp]:
  "raised [] = []"
  "raised ((n, c, Inl e) # xs) = e # raised xs"
  "raised ((n, c, Inr v) # xs) = raised xs"
  "raised (xs @ ys) = raised xs @ raised ys"
  by (simp_all add: raised_def List.map_filter_def)


lemma consistent_simps [simp]:
  "consistent (Inr x) es = (es = [])"
  "consistent (Inl (Raised e)) es = (es = [e])"
  "consistent (Inl (Name_error n)) es = (es = [])"
  by (simp_all add: consistent_def)





















section \<open>Runs on the demonstration libraries\<close>

lemmas run_defs = notebook_bodies cell_imports_def cell_step1_def cell_step2_def cell_step3_def
  cell_step4_def cell_step5_def cell_step6_def cell_sorted_def sim_trange_def sim_data_def
  with_stmt_def with_body_def attempt_def bnd_def call_def var_def store_def assign_def stmt_def
  ret_def raise_def enter_cell_def fresh_def demo_lib_def

lemma good_clean: "clean (trace good_lib 0)"
  by (simp add: trace_def run_defs good_lib_def)



section \<open>The claims\<close>

lemma issued_call:
  assumes "c \<in> set (calls (trace L w))"
  shows "issued c"
proof -
  from notebook_issued [of L w] have "list_all (\<lambda>x. issued (fst (snd x))) (trace L w)" ..
  with assms show ?thesis by (auto simp add: calls_def list_all_iff)
qed

lemma activities_simps [simp]:
  "activities [] = []"
  "activities ((n, c, r) # xs) =
     (case activity_of c of None \<Rightarrow> activities xs | Some a \<Rightarrow> (n, a) # activities xs)"
  by (simp_all add: activities_def List.map_filter_def split: option.splits)

lemma calls_simps [simp]:
  "calls [] = []"
  "calls ((n, c, r) # xs) = c # calls xs"
  by (simp_all add: calls_def)

text \<open>
  C1. The notebook is one linear sequence of steps. For every library and every run, the
  cell numbers of the calls in the log never decrease: no call of a later cell precedes a
  call of an earlier one. In a run in which no call raises, the notebook completes, its
  whole log is the one the source prescribes (the same calls in the same order whatever
  the library answers), and the steps come in the order of the demonstration: cell 1
  builds the model (network and ensemble), cell 2 attaches the input node, cell 3 wires
  the connection, cell 4 attaches the three probes, cell 5 runs the simulation, cell 6
  opens two plots, and the last cell reorders the neurons and opens one more plot. The
  model runs every code cell; the last one is the step the notebook offers
  "for interest's sake".
\<close>

theorem notebook_is_linear:
  "sorted (map fst (trace L w)) \<and>
   (clean (trace L w) \<longrightarrow>
      outcome L w = Inr () \<and>
      (\<exists>a. trace L w = clean_trace a) \<and>
      activities (trace L w) =
        [(1, Builds_model), (1, Builds_model), (2, Attaches_input), (3, Wires_connection),
         (4, Attaches_probe), (4, Attaches_probe), (4, Attaches_probe), (5, Runs_simulation),
         (6, Renders_plot), (6, Renders_plot), (7, Reorders_rows), (7, Renders_plot)])"
proof (intro conjI impI)
  show "sorted (map fst (trace L w))" using notebook_issued [of L w] ..
next
  assume c: "clean (trace L w)"
  from clean_run [OF c] show "outcome L w = Inr ()" "\<exists>a. trace L w = clean_trace a" by simp_all
  from clean_run [OF c] obtain a where "trace L w = clean_trace a" by blast
  then show "activities (trace L w) =
        [(1, Builds_model), (1, Builds_model), (2, Attaches_input), (3, Wires_connection),
         (4, Attaches_probe), (4, Attaches_probe), (4, Attaches_probe), (5, Runs_simulation),
         (6, Renders_plot), (6, Renders_plot), (7, Reorders_rows), (7, Renders_plot)]"
    by (simp add: clean_trace_def)
qed

theorem notebook_is_linear_witness:
  "clean (trace good_lib 0) \<and> outcome good_lib 0 = Inr () \<and>
   activities (trace good_lib 0) =
        [(1, Builds_model), (1, Builds_model), (2, Attaches_input), (3, Wires_connection),
         (4, Attaches_probe), (4, Attaches_probe), (4, Attaches_probe), (5, Runs_simulation),
         (6, Renders_plot), (6, Renders_plot), (7, Reorders_rows), (7, Renders_plot)]"
  using notebook_is_linear [of good_lib 0] good_clean by blast

text \<open>
  C2. The ensemble is built by one call of the constructor, with 100 neurons and one
  dimension. In any run, an ensemble is never built with other arguments; in a run in
  which no call raises, the constructor is called exactly once. The neuron model is not
  an argument of the call: it is the library's default.
\<close>

theorem ensemble_100_neurons_1_dimension:
  "(\<forall>c \<in> set (calls (trace L w)). is_ensemble c \<longrightarrow> c = Ensemble_new 100 1) \<and>
   (clean (trace L w) \<longrightarrow> filter is_ensemble (calls (trace L w)) = [Ensemble_new 100 1])"
proof (intro conjI impI ballI)
  fix c assume "c \<in> set (calls (trace L w))" "is_ensemble c"
  with issued_call [of c L w] show "c = Ensemble_new 100 1" by (cases c) simp_all
next
  assume c: "clean (trace L w)"
  from clean_run [OF c] obtain a where "trace L w = clean_trace a" by blast
  then show "filter is_ensemble (calls (trace L w)) = [Ensemble_new 100 1]"
    by (simp add: clean_trace_def)
qed

theorem ensemble_100_neurons_1_dimension_witness:
  "clean (trace good_lib 0) \<and>
   filter is_ensemble (calls (trace good_lib 0)) = [Ensemble_new 100 1]"
  using ensemble_100_neurons_1_dimension [of good_lib 0] good_clean by blast

text \<open>
  C3. The input is a sine wave. The function handed to the input node is
  \<open>t \<mapsto> sin (8 t)\<close>, a function of the time alone (the model takes numpy's sine on floats as
  the sine on the reals). In any run, a node is never built with another function; in a
  run in which no call raises, the node is built exactly once, inside the context of the
  network built in cell 1.
\<close>

theorem input_is_sine_of_8t:
  "(\<forall>t. input_function t = sin (8 * t)) \<and>
   (\<forall>c \<in> set (calls (trace L w)). \<forall>f. c = Node_new f \<longrightarrow> (\<forall>t. f t = sin (8 * t))) \<and>
   (clean (trace L w) \<longrightarrow>
      filter is_node (calls (trace L w)) = [Node_new input_function] \<and>
      (\<exists>m e n x pre post.
         trace L w = pre @ [(2, Enter m, Inr e), (2, Node_new input_function, Inr n),
                            (2, Exit m None, Inr x)] @ post \<and>
         (1, Network_new ''Many Neurons'', Inr m) \<in> set pre))"
proof (intro conjI impI ballI allI)
  show "input_function t = sin (8 * t)" for t by (simp add: input_function_def)
next
  fix c f t assume "c \<in> set (calls (trace L w))" "c = Node_new f"
  with issued_call [of c L w] show "f t = sin (8 * t)" by (simp add: input_function_def)
next
  assume c: "clean (trace L w)"
  from clean_run [OF c] obtain a where a: "trace L w = clean_trace a" by blast
  then show "filter is_node (calls (trace L w)) = [Node_new input_function]"
    by (simp add: clean_trace_def)
  have seg: "clean_trace a = take 10 (clean_trace a) @ [(2, Enter (a 6), Inr (a 10)),
        (2, Node_new input_function, Inr (a 11)), (2, Exit (a 6) None, Inr (a 12))] @
        drop 13 (clean_trace a) \<and>
      (1, Network_new ''Many Neurons'', Inr (a 6)) \<in> set (take 10 (clean_trace a))"
    by (simp add: clean_trace_def)
  show "\<exists>m e n x pre post.
         trace L w = pre @ [(2, Enter m, Inr e), (2, Node_new input_function, Inr n),
                            (2, Exit m None, Inr x)] @ post \<and>
         (1, Network_new ''Many Neurons'', Inr m) \<in> set pre"
    unfolding a by (intro exI) (rule seg)
qed

theorem input_is_sine_of_8t_witness:
  "clean (trace good_lib 0) \<and> filter is_node (calls (trace good_lib 0)) = [Node_new input_function]
   \<and> (\<forall>t. input_function t = sin (8 * t))"
  using input_is_sine_of_8t [of good_lib 0] good_clean by blast

text \<open>
  C4. The connection is filtered. In any run, a connection is never built with a synapse
  other than 0.01 (seconds, that is 10 ms); in a run in which no call raises there is
  exactly one connection call, from the object the node constructor returned to the
  object the ensemble constructor returned, with that synapse.
\<close>

theorem connection_is_filtered:
  "(\<forall>c \<in> set (calls (trace L w)). \<forall>p q syn. c = Connection_new p q syn \<longrightarrow> syn = 1 / 100) \<and>
   (clean (trace L w) \<longrightarrow>
      (\<exists>n a. filter is_connection (calls (trace L w)) = [Connection_new n a (1 / 100)] \<and>
         (2, Node_new input_function, Inr n) \<in> set (trace L w) \<and>
         (1, Ensemble_new 100 1, Inr a) \<in> set (trace L w)))"
proof (intro conjI impI ballI allI)
  fix c p q syn assume "c \<in> set (calls (trace L w))" "c = Connection_new p q syn"
  with issued_call [of c L w] show "syn = 1 / 100" by simp
next
  assume c: "clean (trace L w)"
  from clean_run [OF c] obtain a where a: "trace L w = clean_trace a" by blast
  have seg: "filter is_connection (calls (clean_trace a)) = [Connection_new (a 11) (a 8) (1 / 100)] \<and>
      (2, Node_new input_function, Inr (a 11)) \<in> set (clean_trace a) \<and>
      (1, Ensemble_new 100 1, Inr (a 8)) \<in> set (clean_trace a)"
    by (simp add: clean_trace_def)
  show "\<exists>n a. filter is_connection (calls (trace L w)) = [Connection_new n a (1 / 100)] \<and>
         (2, Node_new input_function, Inr n) \<in> set (trace L w) \<and>
         (1, Ensemble_new 100 1, Inr a) \<in> set (trace L w)"
    unfolding a by (intro exI) (rule seg)
qed

theorem connection_is_filtered_witness:
  "clean (trace good_lib 0) \<and>
   (\<exists>n a. filter is_connection (calls (trace good_lib 0)) = [Connection_new n a (1 / 100)] \<and>
         (2, Node_new input_function, Inr n) \<in> set (trace good_lib 0) \<and>
         (1, Ensemble_new 100 1, Inr a) \<in> set (trace good_lib 0))"
  using connection_is_filtered [of good_lib 0] good_clean by blast

text \<open>
  C5. The simulation runs once, for a fixed duration of 1. In any run, \<^verbatim>\<open>run\<close> is never
  called with another duration; in a run in which no call raises, one simulator is
  constructed from the network of cell 1, its context is entered, \<^verbatim>\<open>run(1)\<close> is called once
  on the object that \<^verbatim>\<open>__enter__\<close> returned, and the context is left, in this order and with
  nothing in between.
\<close>

theorem simulation_runs_for_one_second:
  "(\<forall>c \<in> set (calls (trace L w)). \<forall>sim t. c = Sim_run sim t \<longrightarrow> t = 1) \<and>
   (clean (trace L w) \<longrightarrow>
      (\<exists>m mgr sim x y pre post.
         trace L w = pre @ [(5, Simulator_new m, Inr mgr), (5, Enter mgr, Inr sim),
                            (5, Sim_run sim 1, Inr x), (5, Exit mgr None, Inr y)] @ post \<and>
         (1, Network_new ''Many Neurons'', Inr m) \<in> set pre \<and>
         filter is_run (calls (trace L w)) = [Sim_run sim 1] \<and>
         filter is_simulator (calls (trace L w)) = [Simulator_new m]))"
proof (intro conjI impI ballI allI)
  fix c sim t assume "c \<in> set (calls (trace L w))" "c = Sim_run sim t"
  with issued_call [of c L w] show "t = 1" by simp
next
  assume c: "clean (trace L w)"
  from clean_run [OF c] obtain a where a: "trace L w = clean_trace a" by blast
  have seg: "clean_trace a = take 22 (clean_trace a) @ [(5, Simulator_new (a 6), Inr (a 22)),
        (5, Enter (a 22), Inr (a 23)), (5, Sim_run (a 23) 1, Inr (a 24)),
        (5, Exit (a 22) None, Inr (a 25))] @ drop 26 (clean_trace a) \<and>
      (1, Network_new ''Many Neurons'', Inr (a 6)) \<in> set (take 22 (clean_trace a)) \<and>
      filter is_run (calls (clean_trace a)) = [Sim_run (a 23) 1] \<and>
      filter is_simulator (calls (clean_trace a)) = [Simulator_new (a 6)]"
    by (simp add: clean_trace_def)
  show "\<exists>m mgr sim x y pre post.
         trace L w = pre @ [(5, Simulator_new m, Inr mgr), (5, Enter mgr, Inr sim),
                            (5, Sim_run sim 1, Inr x), (5, Exit mgr None, Inr y)] @ post \<and>
         (1, Network_new ''Many Neurons'', Inr m) \<in> set pre \<and>
         filter is_run (calls (trace L w)) = [Sim_run sim 1] \<and>
         filter is_simulator (calls (trace L w)) = [Simulator_new m]"
    unfolding a by (intro exI) (rule seg)
qed

theorem simulation_runs_for_one_second_witness:
  "clean (trace good_lib 0) \<and>
   (\<exists>m mgr sim x y pre post.
         trace good_lib 0 = pre @ [(5, Simulator_new m, Inr mgr), (5, Enter mgr, Inr sim),
                            (5, Sim_run sim 1, Inr x), (5, Exit mgr None, Inr y)] @ post \<and>
         (1, Network_new ''Many Neurons'', Inr m) \<in> set pre \<and>
         filter is_run (calls (trace good_lib 0)) = [Sim_run sim 1] \<and>
         filter is_simulator (calls (trace good_lib 0)) = [Simulator_new m])"
  using simulation_runs_for_one_second [of good_lib 0] good_clean by blast



text \<open>
  C8. The last cell reorders the rows of the raster. In any run, \<^verbatim>\<open>sorted_neurons\<close> is
  never called with an iteration count other than 250; in a run in which no call raises,
  the log ends with: \<^verbatim>\<open>sorted_neurons\<close> on the ensemble of cell 1 and the simulator of cell 5
  with 250 iterations, a new figure, the time vector, the lookup of the spike probe (the
  probe of cell 4 on the ensemble's neurons) in the simulator's data, the selection of the
  columns of that array by the indices \<^verbatim>\<open>sorted_neurons\<close> returned, and the raster plot of
  exactly that selection. What the selection returns is the library's business.
\<close>

theorem raster_sorted_by_similarity:
  "(\<forall>c \<in> set (calls (trace L w)). \<forall>a sim n. c = Sorted_neurons a sim n \<longrightarrow> n = 250) \<and>
   (clean (trace L w) \<longrightarrow>
      (\<exists>a mgr sim nn p ix f t d y z g x pre.
         trace L w = pre @ [(7, Sorted_neurons a sim 250, Inr ix), (7, Figure, Inr f),
                            (7, Trange sim, Inr t), (7, Get_data sim, Inr d),
                            (7, Getitem d p, Inr y), (7, Getitem_cols y ix, Inr z),
                            (7, Rasterplot t z, Inr g), (7, Xlim 0 1, Inr x)] \<and>
         (1, Ensemble_new 100 1, Inr a) \<in> set pre \<and>
         (5, Enter mgr, Inr sim) \<in> set pre \<and>
         (4, Get_neurons a, Inr nn) \<in> set pre \<and>
         (4, Probe_new nn None, Inr p) \<in> set pre \<and>
         filter is_sorted_neurons (calls (trace L w)) = [Sorted_neurons a sim 250] \<and>
         filter is_getitem_cols (calls (trace L w)) = [Getitem_cols y ix]))"
proof (intro conjI impI ballI allI)
  fix c a sim n assume "c \<in> set (calls (trace L w))" "c = Sorted_neurons a sim n"
  with issued_call [of c L w] show "n = 250" by simp
next
  assume c: "clean (trace L w)"
  from clean_run [OF c] obtain a where a: "trace L w = clean_trace a" by blast
  have seg: "clean_trace a = take 43 (clean_trace a) @ [(7, Sorted_neurons (a 8) (a 23) 250, Inr (a 43)),
        (7, Figure, Inr (a 44)), (7, Trange (a 23), Inr (a 45)), (7, Get_data (a 23), Inr (a 46)),
        (7, Getitem (a 46) (a 20), Inr (a 47)), (7, Getitem_cols (a 47) (a 43), Inr (a 48)),
        (7, Rasterplot (a 45) (a 48), Inr (a 49)), (7, Xlim 0 1, Inr (a 50))] \<and>
      (1, Ensemble_new 100 1, Inr (a 8)) \<in> set (take 43 (clean_trace a)) \<and>
      (5, Enter (a 22), Inr (a 23)) \<in> set (take 43 (clean_trace a)) \<and>
      (4, Get_neurons (a 8), Inr (a 19)) \<in> set (take 43 (clean_trace a)) \<and>
      (4, Probe_new (a 19) None, Inr (a 20)) \<in> set (take 43 (clean_trace a)) \<and>
      filter is_sorted_neurons (calls (clean_trace a)) = [Sorted_neurons (a 8) (a 23) 250] \<and>
      filter is_getitem_cols (calls (clean_trace a)) = [Getitem_cols (a 47) (a 43)]"
    by (simp add: clean_trace_def)
  show "\<exists>a mgr sim nn p ix f t d y z g x pre.
         trace L w = pre @ [(7, Sorted_neurons a sim 250, Inr ix), (7, Figure, Inr f),
                            (7, Trange sim, Inr t), (7, Get_data sim, Inr d),
                            (7, Getitem d p, Inr y), (7, Getitem_cols y ix, Inr z),
                            (7, Rasterplot t z, Inr g), (7, Xlim 0 1, Inr x)] \<and>
         (1, Ensemble_new 100 1, Inr a) \<in> set pre \<and>
         (5, Enter mgr, Inr sim) \<in> set pre \<and>
         (4, Get_neurons a, Inr nn) \<in> set pre \<and>
         (4, Probe_new nn None, Inr p) \<in> set pre \<and>
         filter is_sorted_neurons (calls (trace L w)) = [Sorted_neurons a sim 250] \<and>
         filter is_getitem_cols (calls (trace L w)) = [Getitem_cols y ix]"
    unfolding a by (intro exI) (rule seg)
qed

theorem raster_sorted_by_similarity_witness:
  "clean (trace good_lib 0) \<and>
   (\<exists>a mgr sim nn p ix f t d y z g x pre.
         trace good_lib 0 = pre @ [(7, Sorted_neurons a sim 250, Inr ix), (7, Figure, Inr f),
                            (7, Trange sim, Inr t), (7, Get_data sim, Inr d),
                            (7, Getitem d p, Inr y), (7, Getitem_cols y ix, Inr z),
                            (7, Rasterplot t z, Inr g), (7, Xlim 0 1, Inr x)] \<and>
         (1, Ensemble_new 100 1, Inr a) \<in> set pre \<and>
         (5, Enter mgr, Inr sim) \<in> set pre \<and>
         (4, Get_neurons a, Inr nn) \<in> set pre \<and>
         (4, Probe_new nn None, Inr p) \<in> set pre \<and>
         filter is_sorted_neurons (calls (trace good_lib 0)) = [Sorted_neurons a sim 250] \<and>
         filter is_getitem_cols (calls (trace good_lib 0)) = [Getitem_cols y ix])"
  using raster_sorted_by_similarity [of good_lib 0] good_clean by blast

text \<open>
  C9. The raster of the plotting cell shows all recorded spike data. In a run in which no
  call raises, the only raster plot of cell 6 is handed the very object that the lookup of
  the spike probe in the simulator's data returned, where that probe was built on the
  neurons of the ensemble built with 100 neurons; cell 6 selects no columns. The markdown
  cell that follows the plotting cell nevertheless speaks of "every 2nd neuron". How many
  columns the recorded array has is the library's business.
\<close>

theorem raster_of_whole_spike_array:
  "(clean (trace L w) \<longrightarrow>
      (\<exists>a nn p sim t d y g pre post.
         trace L w = pre @ [(6, Trange sim, Inr t), (6, Get_data sim, Inr d),
                            (6, Getitem d p, Inr y), (6, Rasterplot t y, Inr g)] @ post \<and>
         (1, Ensemble_new 100 1, Inr a) \<in> set pre \<and>
         (4, Get_neurons a, Inr nn) \<in> set pre \<and>
         (4, Probe_new nn None, Inr p) \<in> set pre \<and>
         filter (\<lambda>x. fst x = 6 \<and> is_rasterplot (fst (snd x))) (trace L w) =
           [(6, Rasterplot t y, Inr g)] \<and>
         filter (\<lambda>x. fst x = 6 \<and> is_getitem_cols (fst (snd x))) (trace L w) = [])) \<and>
   (\<exists>pre post. cells L = pre @ [Code (cell_step6 L), Markdown text_after_plots] @ post) \<and>
   text_after_plots ! 1 =
     ''The bottom plot shows the spike raster coming out of '' @ ''every 2nd neuron'' @ ''.''"
proof (intro conjI impI)
  assume c: "clean (trace L w)"
  from clean_run [OF c] obtain a where a: "trace L w = clean_trace a" by blast
  have seg: "clean_trace a = take 38 (clean_trace a) @ [(6, Trange (a 23), Inr (a 38)),
        (6, Get_data (a 23), Inr (a 39)), (6, Getitem (a 39) (a 20), Inr (a 40)),
        (6, Rasterplot (a 38) (a 40), Inr (a 41))] @ drop 42 (clean_trace a) \<and>
      (1, Ensemble_new 100 1, Inr (a 8)) \<in> set (take 38 (clean_trace a)) \<and>
      (4, Get_neurons (a 8), Inr (a 19)) \<in> set (take 38 (clean_trace a)) \<and>
      (4, Probe_new (a 19) None, Inr (a 20)) \<in> set (take 38 (clean_trace a)) \<and>
      filter (\<lambda>x. fst x = 6 \<and> is_rasterplot (fst (snd x))) (clean_trace a) =
           [(6, Rasterplot (a 38) (a 40), Inr (a 41))] \<and>
      filter (\<lambda>x. fst x = 6 \<and> is_getitem_cols (fst (snd x))) (clean_trace a) = []"
    by (simp add: clean_trace_def)
  show "\<exists>a nn p sim t d y g pre post.
         trace L w = pre @ [(6, Trange sim, Inr t), (6, Get_data sim, Inr d),
                            (6, Getitem d p, Inr y), (6, Rasterplot t y, Inr g)] @ post \<and>
         (1, Ensemble_new 100 1, Inr a) \<in> set pre \<and>
         (4, Get_neurons a, Inr nn) \<in> set pre \<and>
         (4, Probe_new nn None, Inr p) \<in> set pre \<and>
         filter (\<lambda>x. fst x = 6 \<and> is_rasterplot (fst (snd x))) (trace L w) =
           [(6, Rasterplot t y, Inr g)] \<and>
         filter (\<lambda>x. fst x = 6 \<and> is_getitem_cols (fst (snd x))) (trace L w) = []"
    unfolding a by (intro exI) (rule seg)
next
  have "cells L = take 13 (cells L) @ [Code (cell_step6 L), Markdown text_after_plots] @
      drop 15 (cells L)"
    by (simp add: cells_def)
  then show "\<exists>pre post. cells L = pre @ [Code (cell_step6 L), Markdown text_after_plots] @ post"
    by blast
next
  show "text_after_plots ! 1 =
     ''The bottom plot shows the spike raster coming out of '' @ ''every 2nd neuron'' @ ''.''"
    by (simp add: text_after_plots_def)
qed

theorem raster_of_whole_spike_array_witness:
  "clean (trace good_lib 0) \<and>
      (\<exists>a nn p sim t d y g pre post.
         trace good_lib 0 = pre @ [(6, Trange sim, Inr t), (6, Get_data sim, Inr d),
                            (6, Getitem d p, Inr y), (6, Rasterplot t y, Inr g)] @ post \<and>
         (1, Ensemble_new 100 1, Inr a) \<in> set pre \<and>
         (4, Get_neurons a, Inr nn) \<in> set pre \<and>
         (4, Probe_new nn None, Inr p) \<in> set pre \<and>
         filter (\<lambda>x. fst x = 6 \<and> is_rasterplot (fst (snd x))) (trace good_lib 0) =
           [(6, Rasterplot t y, Inr g)] \<and>
         filter (\<lambda>x. fst x = 6 \<and> is_getitem_cols (fst (snd x))) (trace good_lib 0) = [])"
  using raster_of_whole_spike_array [of good_lib 0] good_clean by blast

end
